theory Spec2Isabelle
  imports Main
begin

section \<open>Python values\<close>

text \<open>
  A Python \<open>str\<close> is a \<open>string\<close>: one \<open>char\<close> stands for one code point, so \<open>length\<close> is
  Python's \<open>len\<close>. Isabelle's \<open>char\<close> has 256 values, hence the model covers the strings
  over the code points below 256.
\<close>

text \<open>
  A Python \<open>float\<close>: \<open>Finite m e\<close> stands for \<open>m * 2 ^ e\<close>. Only its truth value is ever
  inspected by the program.
\<close>

datatype pyfloat = Finite int int | Infinity bool | NaN

text \<open>
  What \<open>response.json()\<close> can hand back: \<open>None\<close>, a \<open>bool\<close>, an \<open>int\<close>, a \<open>float\<close>, a
  \<open>str\<close>, a \<open>list\<close> or a \<open>dict\<close> with \<open>str\<close> keys. A \<open>dict\<close> is read with \<open>map_of\<close>.
\<close>

datatype json =
    JNull
  | JBool bool
  | JInt int
  | JFloat pyfloat
  | JStr string
  | JArr "json list"
  | JObj "(string \<times> json) list"

text \<open>
  Exceptions: the class decides which \<open>except\<close> clause catches, the string is \<open>str(e)\<close>.
  \<open>KeyboardInterrupt\<close> is the one class here that does not derive from \<open>Exception\<close>.
\<close>

datatype exn_class =
    RequestException
  | KeyError
  | TypeError
  | AttributeError
  | IndexError
  | OtherException
  | KeyboardInterrupt

datatype exn = Exn exn_class string

fun exn_str :: "exn \<Rightarrow> string" where
  "exn_str (Exn c m) = m"

fun is_RequestException :: "exn \<Rightarrow> bool" where
  "is_RequestException (Exn c m) = (c = RequestException)"

fun is_Exception :: "exn \<Rightarrow> bool" where
  "is_Exception (Exn c m) = (c \<noteq> KeyboardInterrupt)"

definition quote :: "string \<Rightarrow> string" where
  "quote s = CHR 0x27 # s @ [CHR 0x27]"

fun type_name :: "json \<Rightarrow> string" where
  "type_name JNull = ''NoneType''"
| "type_name (JBool b) = ''bool''"
| "type_name (JInt i) = ''int''"
| "type_name (JFloat f) = ''float''"
| "type_name (JStr s) = ''str''"
| "type_name (JArr xs) = ''list''"
| "type_name (JObj kvs) = ''dict''"

text \<open>Truth value of a Python object, as \<open>if x:\<close> tests it.\<close>

fun truthy :: "json \<Rightarrow> bool" where
  "truthy JNull = False"
| "truthy (JBool b) = b"
| "truthy (JInt i) = (i \<noteq> 0)"
| "truthy (JFloat (Finite m e)) = (m \<noteq> 0)"
| "truthy (JFloat (Infinity s)) = True"
| "truthy (JFloat NaN) = True"
| "truthy (JStr s) = (s \<noteq> [])"
| "truthy (JArr xs) = (xs \<noteq> [])"
| "truthy (JObj kvs) = (kvs \<noteq> [])"

fun is_str :: "json \<Rightarrow> bool" where
  "is_str (JStr s) = True"
| "is_str v = False"

fun starts_with :: "string \<Rightarrow> string \<Rightarrow> bool" where
  "starts_with s [] = True"
| "starts_with [] (p # ps) = False"
| "starts_with (c # cs) (p # ps) = (c = p \<and> starts_with cs ps)"

text \<open>\<open>needle in haystack\<close> for two strings.\<close>

fun str_contains :: "string \<Rightarrow> string \<Rightarrow> bool" where
  "str_contains [] needle = (needle = [])"
| "str_contains (c # cs) needle = (starts_with (c # cs) needle \<or> str_contains cs needle)"

text \<open>\<open>k in x\<close> for a string \<open>k\<close>.\<close>

fun py_in :: "string \<Rightarrow> json \<Rightarrow> exn + bool" where
  "py_in k (JObj kvs) = Inr (map_of kvs k \<noteq> None)"
| "py_in k (JArr xs) = Inr (JStr k \<in> set xs)"
| "py_in k (JStr s) = Inr (str_contains s k)"
| "py_in k v = Inl (Exn TypeError (''argument of type '' @ quote (type_name v) @ '' is not iterable''))"

text \<open>\<open>x[k]\<close> for a string \<open>k\<close>. The \<open>KeyError\<close> text is \<open>repr(k)\<close>, for a key without quotes or escapes.\<close>

fun py_getitem :: "json \<Rightarrow> string \<Rightarrow> exn + json" where
  "py_getitem (JObj kvs) k =
     (case map_of kvs k of None \<Rightarrow> Inl (Exn KeyError (quote k)) | Some v \<Rightarrow> Inr v)"
| "py_getitem (JArr xs) k = Inl (Exn TypeError ''list indices must be integers or slices, not str'')"
| "py_getitem (JStr s) k = Inl (Exn TypeError (''string indices must be integers, not '' @ quote ''str''))"
| "py_getitem v k = Inl (Exn TypeError (quote (type_name v) @ '' object is not subscriptable''))"

text \<open>\<open>x.get(k)\<close>.\<close>

fun py_get :: "json \<Rightarrow> string \<Rightarrow> exn + json" where
  "py_get (JObj kvs) k = Inr (case map_of kvs k of None \<Rightarrow> JNull | Some v \<Rightarrow> v)"
| "py_get v k = Inl (Exn AttributeError (quote (type_name v) @ '' object has no attribute '' @ quote ''get''))"

text \<open>\<open>len(x)\<close>.\<close>

fun py_len :: "json \<Rightarrow> exn + nat" where
  "py_len (JObj kvs) = Inr (length (remdups (map fst kvs)))"
| "py_len (JArr xs) = Inr (length xs)"
| "py_len (JStr s) = Inr (length s)"
| "py_len v = Inl (Exn TypeError (''object of type '' @ quote (type_name v) @ '' has no len()''))"

text \<open>\<open>x[0]\<close>. A \<open>dict\<close> from JSON has no key \<open>0\<close>: its keys are strings.\<close>

fun py_first :: "json \<Rightarrow> exn + json" where
  "py_first (JArr []) = Inl (Exn IndexError ''list index out of range'')"
| "py_first (JArr (x # xs)) = Inr x"
| "py_first (JStr []) = Inl (Exn IndexError ''string index out of range'')"
| "py_first (JStr (c # cs)) = Inr (JStr [c])"
| "py_first (JObj kvs) = Inl (Exn KeyError ''0'')"
| "py_first v = Inl (Exn TypeError (quote (type_name v) @ '' object is not subscriptable''))"

text \<open>Sequencing of steps that may raise: the first exception ends the sequence.\<close>

fun andthen :: "exn + 'a \<Rightarrow> ('a \<Rightarrow> exn + 'b) \<Rightarrow> exn + 'b" where
  "andthen (Inl e) f = Inl e"
| "andthen (Inr v) f = f v"

section \<open>Constants of \<open>main.py\<close>\<close>

definition MAX_TOKENS :: nat where
  "MAX_TOKENS = 30720"

definition RATE_LIMIT_DELAY :: nat where
  "RATE_LIMIT_DELAY = 1"

definition MAX_RETRIES :: nat where
  "MAX_RETRIES = 3"

definition MODEL_NAME :: string where
  "MODEL_NAME = ''gemini-2.0-flash''"

section \<open>Program state\<close>

text \<open>One entry of \<open>Conversation.history\<close>: the dict \<open>{"role": role, "text": content}\<close>.\<close>

record message =
  m_role :: string
  m_text :: json

text \<open>The request body: \<open>{"contents": [{"role": r, "parts": [{"text": t}]}, ...]}\<close>.\<close>

record part =
  p_text :: json

record content =
  c_role :: string
  c_parts :: "part list"

record payload =
  contents :: "content list"

text \<open>What one \<open>requests.post\<close> call gives: an exception, or a response object.\<close>

record response =
  status_code :: int
  body_text :: string
  json_result :: "exn + json"

type_synonym post_result = "exn + response"

text \<open>The network: the result of the \<open>k\<close>-th \<open>requests.post\<close> call of the process.\<close>

type_synonym network = "nat \<Rightarrow> post_result"

datatype console_call =
    Print string
  | PrintMarkdown string
  | PrintStr json

text \<open>
  Python lists are objects: \<open>heap\<close> maps the address of a list object to its elements and
  \<open>next_addr\<close> is the first address not yet handed out. \<open>history\<close> is the field
  \<open>self.history\<close> of the one \<open>Conversation\<close> object, a reference to a list object.
  \<open>posts\<close>, \<open>sleeps\<close> and \<open>printed\<close> log the calls of \<open>requests.post\<close> (the JSON body
  sent), \<open>time.sleep\<close> (the seconds) and \<open>console.print\<close>.
\<close>

type_synonym addr = nat

record state =
  history :: addr
  heap :: "addr \<Rightarrow> message list"
  next_addr :: addr
  posts :: "payload list"
  sleeps :: "nat list"
  printed :: "console_call list"

text \<open>The process before \<open>main\<close> runs: no list allocated, nothing logged.\<close>

definition boot :: state where
  "boot = \<lparr>history = 0, heap = (\<lambda>a. []), next_addr = 0, posts = [], sleeps = [], printed = []\<rparr>"

text \<open>The elements of the list object that \<open>self.history\<close> refers to.\<close>

definition messages :: "state \<Rightarrow> message list" where
  "messages st = heap st (history st)"

section \<open>class Conversation\<close>

text \<open>\<open>__init__\<close>: \<open>self.history = []\<close> binds the field to a new list object.\<close>

definition Conversation_init :: "state \<Rightarrow> state" where
  "Conversation_init st =
     st\<lparr>history := next_addr st,
        heap := (heap st)(next_addr st := []),
        next_addr := Suc (next_addr st)\<rparr>"

text \<open>\<open>add_message\<close>: \<open>self.history.append(...)\<close> changes the list object in place.\<close>

definition add_message :: "string \<Rightarrow> json \<Rightarrow> state \<Rightarrow> state" where
  "add_message role c st =
     st\<lparr>heap := (heap st)(history st := heap st (history st) @ [\<lparr>m_role = role, m_text = c\<rparr>])\<rparr>"

text \<open>\<open>get_messages\<close>: \<open>return self.history\<close>, the reference itself.\<close>

definition get_messages :: "state \<Rightarrow> addr" where
  "get_messages st = history st"

text \<open>\<open>clear\<close>: \<open>self.history = []\<close> binds the field to a new list object.\<close>

definition clear :: "state \<Rightarrow> state" where
  "clear st =
     st\<lparr>history := next_addr st,
        heap := (heap st)(next_addr st := []),
        next_addr := Suc (next_addr st)\<rparr>"

section \<open>create_message_content\<close>

text \<open>The \<open>for msg in conversation.get_messages()\<close> loop, \<open>cs\<close> being the list \<open>contents\<close>.\<close>

fun history_loop :: "message list \<Rightarrow> content list \<Rightarrow> content list" where
  "history_loop [] cs = cs"
| "history_loop (msg # rest) cs =
     history_loop rest (cs @ [\<lparr>c_role = m_role msg, c_parts = [\<lparr>p_text = m_text msg\<rparr>]\<rparr>])"

definition create_message_content :: "string \<Rightarrow> state \<Rightarrow> payload \<times> state" where
  "create_message_content new_message st =
     (let cs = history_loop (heap st (get_messages st)) [];
          cs' = cs @ [\<lparr>c_role = ''user'', c_parts = [\<lparr>p_text = JStr new_message\<rparr>]\<rparr>]
      in (\<lparr>contents = cs'\<rparr>, st))"

section \<open>get_response\<close>

text \<open>
  The \<open>return\<close> statements of \<open>get_response\<close>, each with the data its string is built
  from; \<open>ret_value\<close> is the Python value returned there.
\<close>

datatype ret =
    SafetyBlocked
  | Success json
  | Empty
  | ModelNotFound
  | RateLimited
  | HttpError int string
  | NetworkError string
  | ApiKeyError
  | ErrorOccurred string
  | Unexpected

fun digit :: "nat \<Rightarrow> char" where
  "digit d = char_of (48 + d)"

fun show_nat :: "nat \<Rightarrow> string" where
  "show_nat n = (if n < 10 then [digit n] else show_nat (n div 10) @ [digit (n mod 10)])"

declare show_nat.simps [simp del]

definition show_int :: "int \<Rightarrow> string" where
  "show_int i = (if i < 0 then CHR ''-'' # show_nat (nat (- i)) else show_nat (nat i))"

fun ret_value :: "ret \<Rightarrow> json" where
  "ret_value SafetyBlocked =
     JStr ''I apologize, but I cannot respond to that prompt due to safety concerns.''"
| "ret_value (Success response_text) = response_text"
| "ret_value Empty = JStr ''No response generated''"
| "ret_value ModelNotFound =
     JStr (''Error: Model '' @ quote MODEL_NAME @
           '' not found or not available. Please check the model name.'')"
| "ret_value RateLimited = JStr ''Rate limit exceeded. Please try again later.''"
| "ret_value (HttpError code txt) =
     JStr (''Error: API returned status code '' @ show_int code @ ''. Response: '' @ txt)"
| "ret_value (NetworkError m) = JStr (''Network error: '' @ m)"
| "ret_value ApiKeyError =
     JStr ''Error: Please make sure you have set up your GOOGLE_API_KEY in the .env file''"
| "ret_value (ErrorOccurred m) = JStr (''An error occurred: '' @ m)"
| "ret_value Unexpected = JStr ''An unexpected error occurred''"

text \<open>
  Lines 85 and 86: \<open>'promptFeedback' in response_data\<close> and then
  \<open>response_data['promptFeedback'].get('blockReason')\<close> as a truth value.
\<close>

definition safety_blocked :: "json \<Rightarrow> exn + bool" where
  "safety_blocked response_data =
     andthen (py_in ''promptFeedback'' response_data) (\<lambda>has.
       if has then
         andthen (py_getitem response_data ''promptFeedback'') (\<lambda>pf.
         andthen (py_get pf ''blockReason'') (\<lambda>br. Inr (truthy br)))
       else Inr False)"

text \<open>The test \<open>k in x and len(x[k]) > 0\<close> of lines 89 and 91.\<close>

definition nonempty_at :: "string \<Rightarrow> json \<Rightarrow> exn + bool" where
  "nonempty_at k x =
     andthen (py_in k x) (\<lambda>has.
       if has then andthen (py_getitem x k) (\<lambda>v. andthen (py_len v) (\<lambda>n. Inr (0 < n)))
       else Inr False)"

text \<open>
  Lines 89 to 92: \<open>Some\<close> of \<open>response_text\<close> when both tests pass, \<open>None\<close> when control
  falls through to line 96.
\<close>

definition response_text :: "json \<Rightarrow> exn + json option" where
  "response_text response_data =
     andthen (nonempty_at ''candidates'' response_data) (\<lambda>ok.
       if ok then
         andthen (py_getitem response_data ''candidates'') (\<lambda>cands.
         andthen (py_first cands) (\<lambda>cand.
         andthen (py_getitem cand ''content'') (\<lambda>cont.
         andthen (nonempty_at ''parts'' cont) (\<lambda>ok'.
           if ok' then
             andthen (py_getitem cont ''parts'') (\<lambda>ps.
             andthen (py_first ps) (\<lambda>p.
             andthen (py_getitem p ''text'') (\<lambda>t. Inr (Some t))))
           else Inr None))))
       else Inr None)"

text \<open>How one pass through the loop body ends: a \<open>return\<close>, or \<open>continue\<close>.\<close>

datatype step = Return ret | Continue

text \<open>
  Lines 82 to 96, the branch of \<open>response.status_code == 200\<close>. \<open>Inl e\<close>: the exception
  \<open>e\<close> leaves the branch.
\<close>

definition on_status_200 :: "response \<Rightarrow> string \<Rightarrow> state \<Rightarrow> (exn + step) \<times> state" where
  "on_status_200 response prompt st =
     (case json_result response of
        Inl e \<Rightarrow> (Inl e, st)
      | Inr response_data \<Rightarrow>
         (case safety_blocked response_data of
            Inl e \<Rightarrow> (Inl e, st)
          | Inr True \<Rightarrow> (Inr (Return SafetyBlocked), st)
          | Inr False \<Rightarrow>
             (case response_text response_data of
                Inl e \<Rightarrow> (Inl e, st)
              | Inr (Some t) \<Rightarrow>
                  (Inr (Return (Success t)),
                   add_message ''model'' t (add_message ''user'' (JStr prompt) st))
              | Inr None \<Rightarrow> (Inr (Return Empty), st))))"

text \<open>
  Lines 79 to 105, the body of the inner \<open>try\<close>. \<open>Inl e\<close>: the exception \<open>e\<close> leaves the
  body. The call of \<open>requests.post\<close> is logged before its result is known.
\<close>

definition try_body :: "network \<Rightarrow> string \<Rightarrow> payload \<Rightarrow> nat \<Rightarrow> state \<Rightarrow> (exn + step) \<times> state" where
  "try_body net prompt data attempt st =
     (let st1 = st\<lparr>posts := posts st @ [data]\<rparr> in
      case net (length (posts st)) of
        Inl e \<Rightarrow> (Inl e, st1)
      | Inr response \<Rightarrow>
          if status_code response = 200 then on_status_200 response prompt st1
          else if status_code response = 404 then (Inr (Return ModelNotFound), st1)
          else if status_code response = 429 then
            (if attempt < MAX_RETRIES - 1
             then (Inr Continue, st1\<lparr>sleeps := sleeps st1 @ [RATE_LIMIT_DELAY * (attempt + 1)]\<rparr>)
             else (Inr (Return RateLimited), st1))
          else (Inr (Return (HttpError (status_code response) (body_text response))), st1))"

text \<open>Lines 107 to 111, the handler of \<open>requests.exceptions.RequestException\<close>.\<close>

definition on_request_exception :: "exn \<Rightarrow> nat \<Rightarrow> state \<Rightarrow> step \<times> state" where
  "on_request_exception e attempt st =
     (if attempt < MAX_RETRIES - 1
      then (Continue, st\<lparr>sleeps := sleeps st @ [RATE_LIMIT_DELAY]\<rparr>)
      else (Return (NetworkError (exn_str e)), st))"

text \<open>
  The loop \<open>for attempt in range(MAX_RETRIES)\<close> over the indices still to come.
  \<open>Inr None\<close>: the loop ran out without a \<open>return\<close>. \<open>Inl e\<close>: an exception that is not
  a \<open>RequestException\<close> left the loop.
\<close>

fun attempts_loop ::
  "network \<Rightarrow> string \<Rightarrow> payload \<Rightarrow> nat list \<Rightarrow> state \<Rightarrow> (exn + ret option) \<times> state" where
  "attempts_loop net prompt data [] st = (Inr None, st)"
| "attempts_loop net prompt data (attempt # rest) st =
     (case try_body net prompt data attempt st of
        (Inr (Return r), st1) \<Rightarrow> (Inr (Some r), st1)
      | (Inr Continue, st1) \<Rightarrow> attempts_loop net prompt data rest st1
      | (Inl e, st1) \<Rightarrow>
          if is_RequestException e then
            (case on_request_exception e attempt st1 of
               (Return r, st2) \<Rightarrow> (Inr (Some r), st2)
             | (Continue, st2) \<Rightarrow> attempts_loop net prompt data rest st2)
          else (Inl e, st1))"

text \<open>
  \<open>get_response\<close>: \<open>Inr r\<close> when it returns at \<open>r\<close>, \<open>Inl e\<close> when the exception \<open>e\<close>
  reaches the caller. The outer handler (lines 113 to 118) catches every \<open>Exception\<close>.
\<close>

definition get_response :: "network \<Rightarrow> string \<Rightarrow> state \<Rightarrow> (exn + ret) \<times> state" where
  "get_response net prompt st =
     (case create_message_content prompt st of
        (data, st0) \<Rightarrow>
          (case attempts_loop net prompt data [0..<MAX_RETRIES] st0 of
             (Inr (Some r), st1) \<Rightarrow> (Inr r, st1)
           | (Inr None, st1) \<Rightarrow> (Inr Unexpected, st1)
           | (Inl e, st1) \<Rightarrow>
               if is_Exception e then
                 (if str_contains (exn_str e) ''API key'' then (Inr ApiKeyError, st1)
                  else (Inr (ErrorOccurred (exn_str e)), st1))
               else (Inl e, st1)))"

section \<open>main\<close>

definition console_print :: "console_call \<Rightarrow> state \<Rightarrow> state" where
  "console_print c st = st\<lparr>printed := printed st @ [c]\<rparr>"

text \<open>\<open>str.isspace\<close> on the code points below 256.\<close>

definition isspace :: "char \<Rightarrow> bool" where
  "isspace c =
     (let n = (of_char c :: nat)
      in (9 \<le> n \<and> n \<le> 13) \<or> (28 \<le> n \<and> n \<le> 32) \<or> n = 133 \<or> n = 160)"

definition strip :: "string \<Rightarrow> string" where
  "strip s = rev (dropWhile isspace (rev (dropWhile isspace s)))"

text \<open>\<open>str.lower\<close> on the code points below 256.\<close>

definition lower_char :: "char \<Rightarrow> char" where
  "lower_char c =
     (let n = (of_char c :: nat)
      in if (65 \<le> n \<and> n \<le> 90) \<or> (192 \<le> n \<and> n \<le> 222 \<and> n \<noteq> 215) then char_of (n + 32) else c)"

definition lower :: "string \<Rightarrow> string" where
  "lower s = map lower_char s"

definition print_welcome_message :: "state \<Rightarrow> state" where
  "print_welcome_message st =
     console_print (Print (replicate 50 CHR ''-''))
      (console_print (Print ''[cyan]- 'clear': Clear conversation history[/cyan]'')
      (console_print (Print ''[cyan]- 'quit' or 'exit': End conversation[/cyan]'')
      (console_print (Print ''[cyan]Available commands:[/cyan]'')
      (console_print (Print (''[cyan]Using model: '' @ MODEL_NAME @ ''[/cyan]''))
      (console_print (Print (CHR 0x0A # ''[bold cyan]Welcome to Enhanced Gemini Chatbot![/bold cyan]''))
       st)))))"

text \<open>
  Lines 179 to 186 with \<open>format_response\<close>, for a reply that \<open>console.print\<close> renders: a
  string with a Markdown mark is printed as Markdown and then once more as it is; a value
  that is not a string is printed as \<open>str(response)\<close>, which is never empty. The library
  behind \<open>console.print\<close> refuses some texts (\<open>MarkupError\<close>, for a closing tag such as
  \<open>[/red]\<close> that closes nothing); what the program does then is not followed here.
\<close>

definition show_response :: "json \<Rightarrow> state \<Rightarrow> state" where
  "show_response response st =
     (if truthy response then
        (case response of
           JStr s \<Rightarrow>
             if str_contains s ''```'' \<or> str_contains s ''#'' \<or> str_contains s ''*''
             then console_print (Print s) (console_print (PrintMarkdown s) st)
             else console_print (Print s) st
         | v \<Rightarrow> console_print (PrintStr v) st)
      else console_print (Print ''[red]Error: Empty response from model[/red]'') st)"

text \<open>
  One pass through the \<open>while True\<close> loop for the line that \<open>input()\<close> returned. The
  \<open>bool\<close> says whether the loop goes on. What \<open>input()\<close> does at the end of the input is
  outside this definition.
\<close>

definition main_iteration :: "network \<Rightarrow> string \<Rightarrow> state \<Rightarrow> bool \<times> state" where
  "main_iteration net line st =
     (let st0 = console_print (Print (CHR 0x0A # ''[bold green]You:[/bold green] '')) st;
          user_input = strip line
      in if user_input = [] then (True, st0)
         else if lower user_input \<in> set [''quit'', ''exit'']
           then (False, console_print (Print (CHR 0x0A # ''[bold cyan]Goodbye![/bold cyan]'')) st0)
         else if lower user_input = ''clear''
           then (True, console_print (Print ''[cyan]Conversation history cleared.[/cyan]'') (clear st0))
         else if length user_input > MAX_TOKENS
           then (True, console_print
                   (Print ''[red]Input too long. Please reduce the length of your message.[/red]'') st0)
         else
           (case get_response net user_input
                   (console_print (Print (CHR 0x0A # ''[bold blue]Chatbot:[/bold blue]'')) st0) of
              (Inr r, st1) \<Rightarrow> (True, show_response (ret_value r) st1)
            | (Inl e, st1) \<Rightarrow>
                if is_Exception e
                then (True, console_print
                        (Print (CHR 0x0A # ''[red]An unexpected error occurred: '' @ exn_str e @ ''[/red]'')) st1)
                else (False, console_print (Print (CHR 0x0A # ''[bold cyan]Goodbye![/bold cyan]'')) st1)))"

section \<open>Sequences of calls\<close>

text \<open>Calls of \<open>add_message\<close> and \<open>clear\<close>, one after the other.\<close>

datatype store_op = Append string json | Clear

fun apply_op :: "store_op \<Rightarrow> state \<Rightarrow> state" where
  "apply_op (Append role c) st = add_message role c st"
| "apply_op Clear st = clear st"

fun apply_ops :: "store_op list \<Rightarrow> state \<Rightarrow> state" where
  "apply_ops [] st = st"
| "apply_ops (x # xs) st = apply_ops xs (apply_op x st)"

text \<open>The messages appended by a sequence of calls before its first \<open>clear\<close>.\<close>

fun appended_before_clear :: "store_op list \<Rightarrow> message list" where
  "appended_before_clear [] = []"
| "appended_before_clear (Append role c # xs) = \<lparr>m_role = role, m_text = c\<rparr> # appended_before_clear xs"
| "appended_before_clear (Clear # xs) = []"

text \<open>Calls of \<open>get_response\<close> for one prompt after the other, with what each gave.\<close>

fun exchanges :: "network \<Rightarrow> string list \<Rightarrow> state \<Rightarrow> (exn + ret) list \<times> state" where
  "exchanges net [] st = ([], st)"
| "exchanges net (prompt # rest) st =
     (case get_response net prompt st of
        (r, st1) \<Rightarrow> (case exchanges net rest st1 of (rs, st2) \<Rightarrow> (r # rs, st2)))"

fun is_Success :: "exn + ret \<Rightarrow> bool" where
  "is_Success (Inr (Success t)) = True"
| "is_Success r = False"

text \<open>The entry \<open>{"role": role, "parts": [{"text": text}]}\<close> of a stored message.\<close>

definition turn_entry :: "message \<Rightarrow> content" where
  "turn_entry m = \<lparr>c_role = m_role m, c_parts = [\<lparr>p_text = m_text m\<rparr>]\<rparr>"

text \<open>
  A result of \<open>requests.post\<close> in which neither the call nor \<open>response.json()\<close> raises
  anything but an \<open>Exception\<close>.
\<close>

fun raises_only_Exception :: "post_result \<Rightarrow> bool" where
  "raises_only_Exception (Inl e) = is_Exception e"
| "raises_only_Exception (Inr response) =
     (case json_result response of Inl e \<Rightarrow> is_Exception e | Inr v \<Rightarrow> True)"

text \<open>A network that answers the calls with the listed results and then with \<open>d\<close>.\<close>

definition replay :: "post_result list \<Rightarrow> post_result \<Rightarrow> network" where
  "replay rs d k = (if k < length rs then rs ! k else d)"

text \<open>A response with the given status code and the given result of \<open>response.json()\<close>.\<close>

definition reply :: "int \<Rightarrow> exn + json \<Rightarrow> post_result" where
  "reply code j = Inr \<lparr>status_code = code, body_text = [], json_result = j\<rparr>"

text \<open>The state of \<open>main\<close> when it enters its loop.\<close>

definition session_start :: state where
  "session_start = Conversation_init (print_welcome_message boot)"

section \<open>Notions used in the statements\<close>

text \<open>
  An exception that the handler of \<open>RequestException\<close> lets pass and that the outer
  handler catches.
\<close>

definition internal :: "exn \<Rightarrow> bool" where
  "internal e = (is_Exception e \<and> \<not> is_RequestException e)"

fun raises_internal :: "exn + 'a \<Rightarrow> bool" where
  "raises_internal (Inl e) = internal e"
| "raises_internal (Inr v) = True"

text \<open>How the loop ends when a pass through its body ends the loop.\<close>

fun loop_result :: "exn + step \<Rightarrow> exn + ret option" where
  "loop_result (Inl e) = Inl e"
| "loop_result (Inr (Return x)) = Inr (Some x)"
| "loop_result (Inr Continue) = Inr None"

text \<open>What the caller of \<open>get_response\<close> sees of the way the loop ended.\<close>

definition caller_view :: "exn + ret option \<Rightarrow> exn + ret" where
  "caller_view b =
     (case b of
        Inr (Some r) \<Rightarrow> Inr r
      | Inr None \<Rightarrow> Inr Unexpected
      | Inl e \<Rightarrow>
          if is_Exception e then
            (if str_contains (exn_str e) ''API key'' then Inr ApiKeyError
             else Inr (ErrorOccurred (exn_str e)))
          else Inl e)"

section \<open>Sample inputs\<close>

text \<open>The body \<open>{"candidates": [{"content": {"parts": [{"text": t}]}}]}\<close>.\<close>

definition text_reply :: "json \<Rightarrow> json" where
  "text_reply t =
     JObj [(''candidates'', JArr [JObj [(''content'', JObj [(''parts'', JArr [JObj [(''text'', t)]])])]])]"

text \<open>The body \<open>{"candidates": [{"finishReason": "SAFETY"}]}\<close>: a candidate without \<open>content\<close>.\<close>

definition no_content_body :: json where
  "no_content_body = JObj [(''candidates'', JArr [JObj [(''finishReason'', JStr ''SAFETY'')]])]"

text \<open>The body \<open>{"promptFeedback": {"blockReason": "SAFETY"}}\<close>.\<close>

definition blocked_body :: json where
  "blocked_body = JObj [(''promptFeedback'', JObj [(''blockReason'', JStr ''SAFETY'')])]"

text \<open>
  What \<open>response.json()\<close> raises on a body that is not JSON, from version 2.27 of
  \<open>requests\<close> on: \<open>requests.exceptions.JSONDecodeError\<close>, a \<open>RequestException\<close>.
\<close>

definition json_error :: exn where
  "json_error = Exn RequestException ''Expecting value: line 1 column 1 (char 0)''"

text \<open>A line of \<open>MAX_TOKENS + 1\<close> characters: one blank, then \<open>MAX_TOKENS\<close> letters.\<close>

definition padded_line :: string where
  "padded_line = CHR '' '' # replicate MAX_TOKENS CHR ''a''"

section \<open>Basic facts\<close>

lemma messages_add_message:
  "messages (add_message role c st) = messages st @ [\<lparr>m_role = role, m_text = c\<rparr>]"
  by (simp add: messages_def add_message_def)

lemma messages_frame:
  "messages (st\<lparr>posts := ps\<rparr>) = messages st"
  "messages (st\<lparr>sleeps := sl\<rparr>) = messages st"
  "messages (st\<lparr>printed := pr\<rparr>) = messages st"
  by (simp_all add: messages_def)

lemma messages_session_start: "messages session_start = []"
  by (simp add: session_start_def messages_def Conversation_init_def)

lemma posts_session_start: "posts session_start = []"
  by (simp add: session_start_def Conversation_init_def print_welcome_message_def
      console_print_def boot_def)

lemma sleeps_session_start: "sleeps session_start = []"
  by (simp add: session_start_def Conversation_init_def print_welcome_message_def
      console_print_def boot_def)

lemma session_start_allocated: "history session_start < next_addr session_start"
  by (simp add: session_start_def Conversation_init_def)

lemma range_MAX_RETRIES: "[0..<MAX_RETRIES] = [0, 1, 2]"
  by (simp add: MAX_RETRIES_def upt_rec)

section \<open>The request body\<close>

lemma history_loop_map: "history_loop ms cs = cs @ map turn_entry ms"
  by (induction ms arbitrary: cs) (simp_all add: turn_entry_def)

lemma create_message_content_eq:
  "create_message_content t st =
     (\<lparr>contents = map turn_entry (messages st) @
                   [\<lparr>c_role = ''user'', c_parts = [\<lparr>p_text = JStr t\<rparr>]\<rparr>]\<rparr>, st)"
  by (simp add: create_message_content_def history_loop_map messages_def get_messages_def)

text \<open>
  Claim C1. For every state of the store and every new user text \<open>t\<close>, the body built by
  \<open>create_message_content\<close> holds the entry of each stored message, oldest first, and
  then one entry with role \<open>user\<close> and text \<open>t\<close>. So it has one entry more than the
  history, its first entries are the image of the history in the same order, and the
  state comes back as it went in.
\<close>

theorem create_message_content_contents:
  "contents (fst (create_message_content t st)) =
     map turn_entry (messages st) @ [\<lparr>c_role = ''user'', c_parts = [\<lparr>p_text = JStr t\<rparr>]\<rparr>]
   \<and> length (contents (fst (create_message_content t st))) = length (messages st) + 1
   \<and> take (length (messages st)) (contents (fst (create_message_content t st))) =
       map turn_entry (messages st)
   \<and> snd (create_message_content t st) = st"
  by (simp add: create_message_content_eq)

section \<open>The store\<close>

text \<open>
  Claim C9. In every state, \<open>clear\<close> leaves the history empty, a second \<open>clear\<close> leaves
  the same empty history as the first, and the list that \<open>get_messages\<close> hands out after
  a \<open>clear\<close> is empty, whatever the store held before.
\<close>

theorem clear_resets_history:
  "messages (clear st) = []
   \<and> messages (clear (clear st)) = messages (clear st)
   \<and> heap (clear st) (get_messages (clear st)) = []"
  by (simp add: messages_def clear_def get_messages_def)

text \<open>
  A list object that was handed out: later calls leave it alone unless it is the list
  that \<open>self.history\<close> refers to, which grows until the next \<open>clear\<close>.
\<close>

lemma apply_ops_heap:
  "history st < next_addr st \<Longrightarrow> a < next_addr st \<Longrightarrow>
   heap (apply_ops ops st) a =
     heap st a @ (if a = history st then appended_before_clear ops else [])"
proof (induction ops arbitrary: st)
  case Nil
  then show ?case by simp
next
  case (Cons x xs)
  show ?case
  proof (cases x)
    case (Append role c)
    have "history (add_message role c st) < next_addr (add_message role c st)"
      and "a < next_addr (add_message role c st)"
      using Cons.prems by (simp_all add: add_message_def)
    from Cons.IH [OF this] show ?thesis
      using Append by (simp add: add_message_def)
  next
    case Clear
    have "history (clear st) < next_addr (clear st)" and "a < next_addr (clear st)"
      using Cons.prems by (simp_all add: clear_def)
    from Cons.IH [OF this] show ?thesis
      using Clear Cons.prems by (simp add: clear_def)
  qed
qed

text \<open>
  Claim C7, as the code has it. \<open>get_messages\<close> hands out the store's own list object.
  After any sequence of \<open>add_message\<close> and \<open>clear\<close> calls, that list holds what it held
  when it was handed out, followed by every message appended before the first \<open>clear\<close>:
  \<open>clear\<close> and all that follows it stay invisible, the appends before it do not. The
  hypothesis says that the history list is an allocated object.
\<close>

theorem snapshot_aliases_history:
  "history st < next_addr st \<Longrightarrow>
   heap (apply_ops ops st) (get_messages st) =
     heap st (get_messages st) @ appended_before_clear ops"
  using apply_ops_heap [of st "history st" ops] by (simp add: get_messages_def)

theorem snapshot_aliases_history_witness:
  "history session_start < next_addr session_start
   \<and> heap (apply_ops [Append ''user'' (JStr ''a''), Clear, Append ''user'' (JStr ''b'')] session_start)
          (get_messages session_start)
     = [\<lparr>m_role = ''user'', m_text = JStr ''a''\<rparr>]"
  using snapshot_aliases_history
    [of session_start "[Append ''user'' (JStr ''a''), Clear, Append ''user'' (JStr ''b'')]"]
    session_start_allocated messages_session_start
  by (simp add: get_messages_def messages_def)

text \<open>
  Claim C7 as stated fails: one \<open>add_message\<close> after the snapshot was taken changes what
  the snapshot holds.
\<close>

theorem snapshot_sees_append_counterexample:
  "heap (apply_ops [Append ''user'' (JStr ''hi'')] session_start) (get_messages session_start)
   \<noteq> heap session_start (get_messages session_start)"
  by (simp add: get_messages_def add_message_def)

section \<open>What a call does to the history\<close>

lemma on_status_200_effect:
  "on_status_200 r prompt st = (b, st') \<Longrightarrow>
   (\<exists>t. b = Inr (Return (Success t)) \<and>
      st' = add_message ''model'' t (add_message ''user'' (JStr prompt) st))
   \<or> ((\<forall>t. b \<noteq> Inr (Return (Success t))) \<and> b \<noteq> Inr Continue \<and> st' = st)"
  unfolding on_status_200_def
  by (auto split: sum.splits option.splits bool.splits)

lemma try_body_messages:
  "try_body net prompt data attempt st = (r, st') \<Longrightarrow>
   (\<exists>t. r = Inr (Return (Success t)) \<and>
      messages st' = messages st @
        [\<lparr>m_role = ''user'', m_text = JStr prompt\<rparr>, \<lparr>m_role = ''model'', m_text = t\<rparr>])
   \<or> ((\<forall>t. r \<noteq> Inr (Return (Success t))) \<and> messages st' = messages st)"
  unfolding try_body_def Let_def
  by (auto simp: messages_frame messages_add_message split: sum.splits if_splits
      dest!: on_status_200_effect)

lemma on_request_exception_messages:
  "on_request_exception e attempt st = (s, st') \<Longrightarrow>
   messages st' = messages st \<and> (\<forall>t. s \<noteq> Return (Success t))"
  by (auto simp: on_request_exception_def messages_frame split: if_splits)

lemma attempts_loop_messages:
  "attempts_loop net prompt data idxs st = (r, st') \<Longrightarrow>
   (\<exists>t. r = Inr (Some (Success t)) \<and>
      messages st' = messages st @
        [\<lparr>m_role = ''user'', m_text = JStr prompt\<rparr>, \<lparr>m_role = ''model'', m_text = t\<rparr>])
   \<or> ((\<forall>t. r \<noteq> Inr (Some (Success t))) \<and> messages st' = messages st)"
proof (induction idxs arbitrary: st)
  case Nil
  then show ?case by auto
next
  case (Cons attempt rest)
  obtain b st1 where tb: "try_body net prompt data attempt st = (b, st1)"
    by (cases "try_body net prompt data attempt st")
  note m1 = try_body_messages [OF tb]
  show ?case
  proof (cases b)
    case (Inl e)
    with m1 have eq1: "messages st1 = messages st" by simp
    show ?thesis
    proof (cases "is_RequestException e")
      case True
      obtain s st2 where h: "on_request_exception e attempt st1 = (s, st2)"
        by (cases "on_request_exception e attempt st1")
      note m2 = on_request_exception_messages [OF h]
      show ?thesis
      proof (cases s)
        case (Return x)
        with Cons.prems tb Inl True h m2 eq1 show ?thesis by auto
      next
        case Continue
        with Cons.prems tb Inl True h
        have "attempts_loop net prompt data rest st2 = (r, st')"
          by simp
        from Cons.IH [OF this] m2 eq1 show ?thesis by simp
      qed
    next
      case False
      with Cons.prems tb Inl eq1 show ?thesis by auto
    qed
  next
    case (Inr s)
    show ?thesis
    proof (cases s)
      case (Return x)
      with Cons.prems tb Inr m1 show ?thesis by auto
    next
      case Continue
      with Cons.prems tb Inr have "attempts_loop net prompt data rest st1 = (r, st')"
        by simp
      from Cons.IH [OF this] m1 Inr Continue show ?thesis by simp
    qed
  qed
qed

lemma get_response_messages:
  assumes g: "get_response net prompt st = (r, st')"
  shows "(\<exists>t. r = Inr (Success t) \<and>
      messages st' = messages st @
        [\<lparr>m_role = ''user'', m_text = JStr prompt\<rparr>, \<lparr>m_role = ''model'', m_text = t\<rparr>])
   \<or> ((\<forall>t. r \<noteq> Inr (Success t)) \<and> messages st' = messages st)"
proof -
  obtain data where c: "create_message_content prompt st = (data, st)"
    by (simp add: create_message_content_def Let_def)
  obtain b st1 where a: "attempts_loop net prompt data [0..<MAX_RETRIES] st = (b, st1)"
    by (cases "attempts_loop net prompt data [0..<MAX_RETRIES] st")
  note m = attempts_loop_messages [OF a]
  from g c a m show ?thesis
    by (auto simp: get_response_def split: sum.splits option.splits if_splits)
qed

lemma exchanges_messages:
  "exchanges net ps st = (rs, st') \<Longrightarrow> list_all is_Success rs \<Longrightarrow>
   length rs = length ps \<and>
   map m_role (messages st') =
     map m_role (messages st) @ concat (replicate (length ps) [''user'', ''model''])"
proof (induction ps arbitrary: st rs)
  case Nil
  then show ?case by simp
next
  case (Cons p ps)
  obtain r st1 where g: "get_response net p st = (r, st1)"
    by (cases "get_response net p st")
  obtain rs1 where e: "exchanges net ps st1 = (rs1, st')" and rs: "rs = r # rs1"
    using Cons.prems(1) g by (auto split: prod.splits)
  from Cons.prems(2) rs have s: "is_Success r" and all: "list_all is_Success rs1"
    by simp_all
  from s obtain t where "r = Inr (Success t)"
    by (cases r rule: is_Success.cases) auto
  with get_response_messages [OF g]
  have "map m_role (messages st1) = map m_role (messages st) @ [''user'', ''model'']"
    by auto
  with Cons.IH [OF e all] rs show ?case by simp
qed

lemma response_text_text_reply: "response_text (text_reply t) = Inr (Some t)"
  by (simp add: response_text_def text_reply_def nonempty_at_def)

lemma safety_blocked_text_reply: "safety_blocked (text_reply t) = Inr False"
  by (simp add: safety_blocked_def text_reply_def)

lemma get_response_text_reply:
  assumes "net (length (posts st)) = reply 200 (Inr (text_reply t))"
  shows "get_response net prompt st =
     (Inr (Success t),
      add_message ''model'' t (add_message ''user'' (JStr prompt)
        (st\<lparr>posts := posts st @ [fst (create_message_content prompt st)]\<rparr>)))"
proof -
  obtain data where c: "create_message_content prompt st = (data, st)"
    by (simp add: create_message_content_def Let_def)
  have "try_body net prompt data 0 st =
     (Inr (Return (Success t)),
      add_message ''model'' t (add_message ''user'' (JStr prompt) (st\<lparr>posts := posts st @ [data]\<rparr>)))"
    using assms
    by (simp add: try_body_def reply_def on_status_200_def safety_blocked_text_reply
        response_text_text_reply)
  then show ?thesis
    by (simp add: get_response_def c range_MAX_RETRIES)
qed

lemma get_response_always_text:
  "get_response (\<lambda>k. reply 200 (Inr (text_reply t))) prompt st =
     (Inr (Success t),
      add_message ''model'' t (add_message ''user'' (JStr prompt)
        (st\<lparr>posts := posts st @ [fst (create_message_content prompt st)]\<rparr>)))"
  by (rule get_response_text_reply) simp

text \<open>
  Claim C2. The history of a new \<open>Conversation\<close> is empty. Every call of \<open>get_response\<close>
  either returns at the success \<open>return\<close> with a text \<open>t\<close> and has appended exactly the user
  message with the prompt and then the model message with \<open>t\<close>, or returns elsewhere (or
  raises) and leaves the history as it was. Hence, when every one of \<open>N\<close> calls in a row
  on a new conversation is a success, the history has \<open>2 * N\<close> messages and their roles
  are \<open>user\<close>, \<open>model\<close>, \<open>user\<close>, \<open>model\<close>, ... in call order.
\<close>

theorem history_grows_by_pairs:
  "messages (Conversation_init st0) = []
   \<and> ((\<exists>t. fst (get_response net prompt st) = Inr (Success t) \<and>
          messages (snd (get_response net prompt st)) =
            messages st @
              [\<lparr>m_role = ''user'', m_text = JStr prompt\<rparr>, \<lparr>m_role = ''model'', m_text = t\<rparr>])
      \<or> ((\<forall>t. fst (get_response net prompt st) \<noteq> Inr (Success t)) \<and>
          messages (snd (get_response net prompt st)) = messages st))
   \<and> (list_all is_Success (fst (exchanges net prompts (Conversation_init st0))) \<longrightarrow>
        length (messages (snd (exchanges net prompts (Conversation_init st0)))) = 2 * length prompts
        \<and> map m_role (messages (snd (exchanges net prompts (Conversation_init st0)))) =
            concat (replicate (length prompts) [''user'', ''model'']))"
proof (intro conjI impI)
  show "messages (Conversation_init st0) = []"
    by (simp add: messages_def Conversation_init_def)
next
  obtain r st' where g: "get_response net prompt st = (r, st')"
    by (cases "get_response net prompt st")
  from get_response_messages [OF g] g
  show "(\<exists>t. fst (get_response net prompt st) = Inr (Success t) \<and>
          messages (snd (get_response net prompt st)) =
            messages st @
              [\<lparr>m_role = ''user'', m_text = JStr prompt\<rparr>, \<lparr>m_role = ''model'', m_text = t\<rparr>])
      \<or> ((\<forall>t. fst (get_response net prompt st) \<noteq> Inr (Success t)) \<and>
          messages (snd (get_response net prompt st)) = messages st)"
    by simp
next
  assume a: "list_all is_Success (fst (exchanges net prompts (Conversation_init st0)))"
  obtain rs st' where e: "exchanges net prompts (Conversation_init st0) = (rs, st')"
    by (cases "exchanges net prompts (Conversation_init st0)")
  from a e have "list_all is_Success rs" by simp
  from exchanges_messages [OF e this]
  have r: "map m_role (messages st') = concat (replicate (length prompts) [''user'', ''model''])"
    by (simp add: messages_def Conversation_init_def)
  from r e show "map m_role (messages (snd (exchanges net prompts (Conversation_init st0)))) =
            concat (replicate (length prompts) [''user'', ''model''])"
    by simp
  from arg_cong [OF r, of length] e
  show "length (messages (snd (exchanges net prompts (Conversation_init st0)))) = 2 * length prompts"
    by (simp add: length_concat sum_list_replicate)
qed

theorem history_grows_by_pairs_witness:
  "list_all is_Success
     (fst (exchanges (\<lambda>k. reply 200 (Inr (text_reply (JStr ''yo'')))) [''a'', ''b'']
        (Conversation_init boot)))
   \<and> length (messages (snd (exchanges (\<lambda>k. reply 200 (Inr (text_reply (JStr ''yo''))))
        [''a'', ''b''] (Conversation_init boot)))) = 4
   \<and> map m_role (messages (snd (exchanges (\<lambda>k. reply 200 (Inr (text_reply (JStr ''yo''))))
        [''a'', ''b''] (Conversation_init boot)))) = [''user'', ''model'', ''user'', ''model'']"
  using history_grows_by_pairs
    [of boot "\<lambda>k. reply 200 (Inr (text_reply (JStr ''yo'')))" "''a''" boot "[''a'', ''b'']"]
  by (simp add: get_response_always_text)

section \<open>The retry loop\<close>

lemma try_body_404:
  "net (length (posts st)) = Inr r \<Longrightarrow> status_code r = 404 \<Longrightarrow>
   try_body net prompt data attempt st =
     (Inr (Return ModelNotFound), st\<lparr>posts := posts st @ [data]\<rparr>)"
  by (simp add: try_body_def)

lemma try_body_429:
  "net (length (posts st)) = Inr r \<Longrightarrow> status_code r = 429 \<Longrightarrow>
   try_body net prompt data attempt st =
     (if attempt < MAX_RETRIES - 1
      then (Inr Continue,
            st\<lparr>posts := posts st @ [data],
               sleeps := sleeps st @ [RATE_LIMIT_DELAY * (attempt + 1)]\<rparr>)
      else (Inr (Return RateLimited), st\<lparr>posts := posts st @ [data]\<rparr>))"
  by (simp add: try_body_def)

lemma try_body_200:
  "net (length (posts st)) = Inr r \<Longrightarrow> status_code r = 200 \<Longrightarrow>
   try_body net prompt data attempt st =
     on_status_200 r prompt (st\<lparr>posts := posts st @ [data]\<rparr>)"
  by (simp add: try_body_def)

lemma get_response_404:
  assumes "net (length (posts st)) = Inr r" "status_code r = 404"
  shows "get_response net prompt st =
     (Inr ModelNotFound, st\<lparr>posts := posts st @ [fst (create_message_content prompt st)]\<rparr>)"
proof -
  obtain data where c: "create_message_content prompt st = (data, st)"
    by (simp add: create_message_content_def Let_def)
  show ?thesis
    using assms by (simp add: get_response_def c range_MAX_RETRIES try_body_404)
qed

text \<open>
  Claim C4. When the first \<open>requests.post\<close> of a call of \<open>get_response\<close> gets status 404,
  the call returns the model-not-found message at once: one HTTP call has been made, no
  sleep, no retry, and the history is as it was.
\<close>

theorem not_found_is_terminal:
  "net (length (posts st)) = Inr r \<Longrightarrow> status_code r = 404 \<Longrightarrow>
   get_response net prompt st =
     (Inr ModelNotFound, st\<lparr>posts := posts st @ [fst (create_message_content prompt st)]\<rparr>)
   \<and> length (posts (snd (get_response net prompt st))) = length (posts st) + 1
   \<and> sleeps (snd (get_response net prompt st)) = sleeps st
   \<and> messages (snd (get_response net prompt st)) = messages st"
  by (simp add: get_response_404 messages_frame)

theorem not_found_is_terminal_witness:
  "fst (get_response (replay [] (reply 404 (Inl json_error))) ''hi'' session_start) = Inr ModelNotFound
   \<and> length (posts (snd (get_response (replay [] (reply 404 (Inl json_error))) ''hi'' session_start))) = 1
   \<and> sleeps (snd (get_response (replay [] (reply 404 (Inl json_error))) ''hi'' session_start)) = []"
  using not_found_is_terminal
    [of "replay [] (reply 404 (Inl json_error))" session_start
        "\<lparr>status_code = 404, body_text = [], json_result = Inl json_error\<rparr>" "''hi''"]
  by (simp add: replay_def reply_def posts_session_start sleeps_session_start)

lemma on_status_200_fst:
  "fst (on_status_200 r prompt s) = fst (on_status_200 r prompt u)"
  unfolding on_status_200_def
  by (simp split: sum.splits bool.splits option.splits)

lemma on_status_200_messages:
  "messages s = messages u \<Longrightarrow>
   messages (snd (on_status_200 r prompt s)) = messages (snd (on_status_200 r prompt u))"
  unfolding on_status_200_def
  by (simp add: messages_add_message split: sum.splits bool.splits option.splits)

lemma on_status_200_logs:
  "sleeps (snd (on_status_200 r prompt s)) = sleeps s"
  "posts (snd (on_status_200 r prompt s)) = posts s"
  unfolding on_status_200_def
  by (simp_all add: add_message_def split: sum.splits bool.splits option.splits)

lemma on_status_200_not_Continue:
  "fst (on_status_200 r prompt s) \<noteq> Inr Continue"
  unfolding on_status_200_def
  by (simp split: sum.splits bool.splits option.splits)

text \<open>The exceptions that reading the body raises are none of \<open>requests\<close>.\<close>

lemma raises_internal_andthen:
  "raises_internal m \<Longrightarrow> (\<And>v. raises_internal (f v)) \<Longrightarrow> raises_internal (andthen m f)"
  by (cases m) simp_all

lemma raises_internal_if:
  "raises_internal a \<Longrightarrow> raises_internal b \<Longrightarrow> raises_internal (if c then a else b)"
  by simp

lemma raises_internal_py_in: "raises_internal (py_in k v)"
  by (cases v) (simp_all add: internal_def)

lemma raises_internal_py_getitem: "raises_internal (py_getitem v k)"
  by (cases v) (simp_all add: internal_def split: option.splits)

lemma raises_internal_py_get: "raises_internal (py_get v k)"
  by (cases v) (simp_all add: internal_def)

lemma raises_internal_py_len: "raises_internal (py_len v)"
  by (cases v) (simp_all add: internal_def)

lemma raises_internal_py_first: "raises_internal (py_first v)"
  by (cases v rule: py_first.cases) (simp_all add: internal_def)

lemma raises_internal_Inr: "raises_internal (Inr v)"
  by simp

lemmas raises_internal_intros =
  raises_internal_andthen raises_internal_if raises_internal_py_in raises_internal_py_getitem
  raises_internal_py_get raises_internal_py_len raises_internal_py_first raises_internal_Inr

lemma raises_internal_safety_blocked: "raises_internal (safety_blocked b)"
  unfolding safety_blocked_def by (intro raises_internal_intros)

lemma raises_internal_nonempty_at: "raises_internal (nonempty_at k x)"
  unfolding nonempty_at_def by (intro raises_internal_intros)

lemma raises_internal_response_text: "raises_internal (response_text b)"
  unfolding response_text_def by (intro raises_internal_intros raises_internal_nonempty_at)

lemma safety_blocked_internal: "safety_blocked b = Inl e \<Longrightarrow> internal e"
  using raises_internal_safety_blocked [of b] by simp

lemma response_text_internal: "response_text b = Inl e \<Longrightarrow> internal e"
  using raises_internal_response_text [of b] by simp

lemma on_status_200_Inl:
  "on_status_200 r prompt st = (Inl e, st') \<Longrightarrow> json_result r = Inl e \<or> internal e"
  unfolding on_status_200_def
  by (auto split: sum.splits bool.splits option.splits
      dest: safety_blocked_internal response_text_internal)

lemma attempts_loop_ends:
  assumes "fst (try_body net prompt data attempt st) \<noteq> Inr Continue"
    and "\<And>e. fst (try_body net prompt data attempt st) = Inl e \<Longrightarrow> \<not> is_RequestException e"
  shows "attempts_loop net prompt data (attempt # rest) st =
     (loop_result (fst (try_body net prompt data attempt st)),
      snd (try_body net prompt data attempt st))"
proof -
  obtain b s1 where tb: "try_body net prompt data attempt st = (b, s1)"
    by (cases "try_body net prompt data attempt st")
  show ?thesis
  proof (cases b)
    case (Inl e)
    with assms(2) tb have "\<not> is_RequestException e" by simp
    with tb Inl show ?thesis by simp
  next
    case (Inr s)
    with assms(1) tb show ?thesis by (cases s) simp_all
  qed
qed

lemma get_response_range:
  "get_response net prompt st =
     (caller_view (fst (attempts_loop net prompt (fst (create_message_content prompt st))
                          [0..<MAX_RETRIES] st)),
      snd (attempts_loop net prompt (fst (create_message_content prompt st)) [0..<MAX_RETRIES] st))"
proof -
  obtain data where c: "create_message_content prompt st = (data, st)"
    by (simp add: create_message_content_def Let_def)
  obtain b s1 where a: "attempts_loop net prompt data [0..<MAX_RETRIES] st = (b, s1)"
    by (cases "attempts_loop net prompt data [0..<MAX_RETRIES] st")
  show ?thesis
    by (simp add: get_response_def c a caller_view_def split: sum.splits option.splits)
qed

lemma get_response_loop:
  "get_response net prompt st =
     (caller_view (fst (attempts_loop net prompt (fst (create_message_content prompt st))
                          [0, 1, 2] st)),
      snd (attempts_loop net prompt (fst (create_message_content prompt st)) [0, 1, 2] st))"
  using get_response_range [of net prompt st] unfolding range_MAX_RETRIES .

lemma json_not_request:
  assumes "case json_result r of Inl e \<Rightarrow> \<not> is_RequestException e | Inr v \<Rightarrow> True"
    and "fst (on_status_200 r prompt s) = Inl e"
  shows "\<not> is_RequestException e"
proof -
  obtain s' where "on_status_200 r prompt s = (Inl e, s')"
    using assms(2) by (cases "on_status_200 r prompt s") simp
  from on_status_200_Inl [OF this] assms(1) show ?thesis
    by (auto simp: internal_def)
qed

lemma attempts_loop_200:
  assumes "net (length (posts st)) = Inr r" and "status_code r = 200"
    and "case json_result r of Inl e \<Rightarrow> \<not> is_RequestException e | Inr v \<Rightarrow> True"
  shows "attempts_loop net prompt data (attempt # rest) st =
     (loop_result (fst (on_status_200 r prompt (st\<lparr>posts := posts st @ [data]\<rparr>))),
      snd (on_status_200 r prompt (st\<lparr>posts := posts st @ [data]\<rparr>)))"
proof -
  have tb: "try_body net prompt data attempt st =
      on_status_200 r prompt (st\<lparr>posts := posts st @ [data]\<rparr>)"
    using assms(1,2) by (rule try_body_200)
  show ?thesis
    using attempts_loop_ends [of net prompt data attempt st rest]
      on_status_200_not_Continue json_not_request [OF assms(3)]
    by (simp add: tb)
qed

lemma attempts_loop_429:
  "net (length (posts st)) = Inr r \<Longrightarrow> status_code r = 429 \<Longrightarrow>
   attempts_loop net prompt data (attempt # rest) st =
     (if attempt < MAX_RETRIES - 1
      then attempts_loop net prompt data rest
             (st\<lparr>posts := posts st @ [data],
                 sleeps := sleeps st @ [RATE_LIMIT_DELAY * (attempt + 1)]\<rparr>)
      else (Inr (Some RateLimited), st\<lparr>posts := posts st @ [data]\<rparr>))"
  by (simp add: try_body_429)

lemma three_429:
  assumes "net (length (posts st)) = Inr ra" "status_code ra = 429"
    and "net (length (posts st) + 1) = Inr rb" "status_code rb = 429"
    and "net (length (posts st) + 2) = Inr rc" "status_code rc = 429"
  shows "get_response net prompt st =
     (Inr RateLimited,
      st\<lparr>posts := posts st @ replicate 3 (fst (create_message_content prompt st)),
         sleeps := sleeps st @ [RATE_LIMIT_DELAY * 1, RATE_LIMIT_DELAY * 2]\<rparr>)"
proof -
  let ?d = "fst (create_message_content prompt st)"
  let ?s1 = "st\<lparr>posts := posts st @ [?d], sleeps := sleeps st @ [RATE_LIMIT_DELAY * (0 + 1)]\<rparr>"
  let ?s2 = "?s1\<lparr>posts := posts ?s1 @ [?d], sleeps := sleeps ?s1 @ [RATE_LIMIT_DELAY * (1 + 1)]\<rparr>"
  have 1: "attempts_loop net prompt ?d [0, 1, 2] st = attempts_loop net prompt ?d [1, 2] ?s1"
    using attempts_loop_429 [of net st _ prompt ?d 0 "[1, 2]"] assms(1,2)
    by (simp add: MAX_RETRIES_def)
  have "net (length (posts ?s1)) = Inr rb" using assms(3) by simp
  from attempts_loop_429 [of net ?s1 rb prompt ?d 1 "[2]"] this assms(4)
  have 2: "attempts_loop net prompt ?d [1, 2] ?s1 = attempts_loop net prompt ?d [2] ?s2"
    by (simp add: MAX_RETRIES_def)
  have "net (length (posts ?s2)) = Inr rc" using assms(5) by simp
  from attempts_loop_429 [of net ?s2 rc prompt ?d 2 "[]"] this assms(6)
  have 3: "attempts_loop net prompt ?d [2] ?s2 =
      (Inr (Some RateLimited), ?s2\<lparr>posts := posts ?s2 @ [?d]\<rparr>)"
    by (simp add: MAX_RETRIES_def)
  have "get_response net prompt st =
      (caller_view (Inr (Some RateLimited)), ?s2\<lparr>posts := posts ?s2 @ [?d]\<rparr>)"
    by (simp only: get_response_loop 1 2 3 fst_conv snd_conv)
  then show ?thesis
    by (simp add: caller_view_def numeral_3_eq_3)
qed

lemma then_200:
  assumes "net (length (posts st)) = Inr r1" "status_code r1 = 429"
    and "net (Suc (length (posts st))) = Inr r2" "status_code r2 = 200"
    and "case json_result r2 of Inl e \<Rightarrow> \<not> is_RequestException e | Inr v \<Rightarrow> True"
    and "net' (length (posts st)) = Inr r2"
  shows "fst (get_response net prompt st) = fst (get_response net' prompt st)
     \<and> messages (snd (get_response net prompt st)) = messages (snd (get_response net' prompt st))
     \<and> sleeps (snd (get_response net prompt st)) = sleeps st @ [RATE_LIMIT_DELAY * 1]
     \<and> sleeps (snd (get_response net' prompt st)) = sleeps st
     \<and> length (posts (snd (get_response net prompt st))) = length (posts st) + 2"
proof -
  let ?d = "fst (create_message_content prompt st)"
  let ?s1 = "st\<lparr>posts := posts st @ [?d], sleeps := sleeps st @ [RATE_LIMIT_DELAY * (0 + 1)]\<rparr>"
  have 1: "attempts_loop net prompt ?d [0, 1, 2] st = attempts_loop net prompt ?d [1, 2] ?s1"
    using attempts_loop_429 [of net st _ prompt ?d 0 "[1, 2]"] assms(1,2)
    by (simp add: MAX_RETRIES_def)
  have "net (length (posts ?s1)) = Inr r2" using assms(3) by simp
  from attempts_loop_200 [of net ?s1 r2 prompt ?d 1 "[2]"] this assms(4,5)
  have 2: "attempts_loop net prompt ?d [1, 2] ?s1 =
     (loop_result (fst (on_status_200 r2 prompt (?s1\<lparr>posts := posts ?s1 @ [?d]\<rparr>))),
      snd (on_status_200 r2 prompt (?s1\<lparr>posts := posts ?s1 @ [?d]\<rparr>)))"
    by simp
  from attempts_loop_200 [of net' st r2 prompt ?d 0 "[1, 2]"] assms(4,5,6)
  have 3: "attempts_loop net' prompt ?d [0, 1, 2] st =
     (loop_result (fst (on_status_200 r2 prompt (st\<lparr>posts := posts st @ [?d]\<rparr>))),
      snd (on_status_200 r2 prompt (st\<lparr>posts := posts st @ [?d]\<rparr>)))"
    by simp
  have f: "fst (on_status_200 r2 prompt (?s1\<lparr>posts := posts ?s1 @ [?d]\<rparr>))
         = fst (on_status_200 r2 prompt (st\<lparr>posts := posts st @ [?d]\<rparr>))"
    by (rule on_status_200_fst)
  have m: "messages (snd (on_status_200 r2 prompt (?s1\<lparr>posts := posts ?s1 @ [?d]\<rparr>)))
         = messages (snd (on_status_200 r2 prompt (st\<lparr>posts := posts st @ [?d]\<rparr>)))"
    by (rule on_status_200_messages) (simp add: messages_def)
  have G: "get_response net prompt st =
     (caller_view (loop_result (fst (on_status_200 r2 prompt (?s1\<lparr>posts := posts ?s1 @ [?d]\<rparr>)))),
      snd (on_status_200 r2 prompt (?s1\<lparr>posts := posts ?s1 @ [?d]\<rparr>)))"
    by (simp only: get_response_loop 1 2 fst_conv snd_conv)
  have G': "get_response net' prompt st =
     (caller_view (loop_result (fst (on_status_200 r2 prompt (st\<lparr>posts := posts st @ [?d]\<rparr>)))),
      snd (on_status_200 r2 prompt (st\<lparr>posts := posts st @ [?d]\<rparr>)))"
    by (simp only: get_response_loop 3 fst_conv snd_conv)
  show ?thesis
    using f m by (simp add: G G' on_status_200_logs)
qed

text \<open>
  Claim C3, as the code has it. With \<open>MAX_RETRIES = 3\<close>: a pass of the loop at index
  \<open>attempt\<close> that gets status 429 sleeps \<open>RATE_LIMIT_DELAY * (attempt + 1)\<close> seconds and
  goes on with the next index when \<open>attempt < MAX_RETRIES - 1\<close>, and returns the
  rate-limit message otherwise. Three 429 in a row give the rate-limit message after
  exactly the two sleeps \<open>RATE_LIMIT_DELAY * 1\<close> and \<open>RATE_LIMIT_DELAY * 2\<close> and three HTTP
  calls. A 429 followed by a 200 whose \<open>response.json()\<close> raises no \<open>RequestException\<close>
  gives what the same 200 gives as a first answer (the same return or exception, the
  same history), after exactly one sleep of \<open>RATE_LIMIT_DELAY * 1\<close> and two HTTP calls.
\<close>

theorem retry_on_429:
  "(net (length (posts st)) = Inr r \<and> status_code r = 429 \<longrightarrow>
      attempts_loop net prompt data (attempt # rest) st =
        (if attempt < MAX_RETRIES - 1
         then attempts_loop net prompt data rest
                (st\<lparr>posts := posts st @ [data],
                    sleeps := sleeps st @ [RATE_LIMIT_DELAY * (attempt + 1)]\<rparr>)
         else (Inr (Some RateLimited), st\<lparr>posts := posts st @ [data]\<rparr>)))
   \<and> (net_a (length (posts st)) = Inr ra \<and> status_code ra = 429 \<and>
      net_a (length (posts st) + 1) = Inr rb \<and> status_code rb = 429 \<and>
      net_a (length (posts st) + 2) = Inr rc \<and> status_code rc = 429 \<longrightarrow>
      get_response net_a prompt st =
        (Inr RateLimited,
         st\<lparr>posts := posts st @ replicate 3 (fst (create_message_content prompt st)),
            sleeps := sleeps st @ [RATE_LIMIT_DELAY * 1, RATE_LIMIT_DELAY * 2]\<rparr>))
   \<and> (net_b (length (posts st)) = Inr r_first \<and> status_code r_first = 429 \<and>
      net_b (Suc (length (posts st))) = Inr r_second \<and> status_code r_second = 200 \<and>
      (case json_result r_second of Inl e \<Rightarrow> \<not> is_RequestException e | Inr v \<Rightarrow> True) \<and>
      net_c (length (posts st)) = Inr r_second \<longrightarrow>
      fst (get_response net_b prompt st) = fst (get_response net_c prompt st)
      \<and> messages (snd (get_response net_b prompt st)) = messages (snd (get_response net_c prompt st))
      \<and> sleeps (snd (get_response net_b prompt st)) = sleeps st @ [RATE_LIMIT_DELAY * 1]
      \<and> sleeps (snd (get_response net_c prompt st)) = sleeps st
      \<and> length (posts (snd (get_response net_b prompt st))) = length (posts st) + 2)"
  using attempts_loop_429 [of net st r prompt data attempt rest]
    three_429 [of net_a st ra rb rc prompt]
    then_200 [of net_b st r_first r_second net_c prompt]
  by blast

theorem retry_on_429_witness:
  "attempts_loop (replay [reply 429 (Inl json_error)] (reply 429 (Inl json_error))) ''hi''
       \<lparr>contents = []\<rparr> [0, 1, 2] session_start =
     attempts_loop (replay [reply 429 (Inl json_error)] (reply 429 (Inl json_error))) ''hi''
       \<lparr>contents = []\<rparr> [1, 2] (session_start\<lparr>posts := [\<lparr>contents = []\<rparr>], sleeps := [1]\<rparr>)
   \<and> fst (get_response (replay [] (reply 429 (Inl json_error))) ''hi'' session_start) = Inr RateLimited
   \<and> sleeps (snd (get_response (replay [] (reply 429 (Inl json_error))) ''hi'' session_start)) = [1, 2]
   \<and> fst (get_response (replay [reply 429 (Inl json_error)]
                          (reply 200 (Inr (text_reply (JStr ''yo''))))) ''hi'' session_start)
       = fst (get_response (replay [] (reply 200 (Inr (text_reply (JStr ''yo''))))) ''hi'' session_start)
   \<and> sleeps (snd (get_response (replay [reply 429 (Inl json_error)]
                          (reply 200 (Inr (text_reply (JStr ''yo''))))) ''hi'' session_start)) = [1]"
  using retry_on_429
     [where net = "replay [reply 429 (Inl json_error)] (reply 429 (Inl json_error))"
      and st = session_start and prompt = "''hi''" and data = "\<lparr>contents = []\<rparr>"
      and attempt = 0 and rest = "[1, 2]"
      and r = "\<lparr>status_code = 429, body_text = [], json_result = Inl json_error\<rparr>"
      and net_a = "replay [] (reply 429 (Inl json_error))"
      and ra = "\<lparr>status_code = 429, body_text = [], json_result = Inl json_error\<rparr>"
      and rb = "\<lparr>status_code = 429, body_text = [], json_result = Inl json_error\<rparr>"
      and rc = "\<lparr>status_code = 429, body_text = [], json_result = Inl json_error\<rparr>"
      and net_b = "replay [reply 429 (Inl json_error)] (reply 200 (Inr (text_reply (JStr ''yo''))))"
      and r_first = "\<lparr>status_code = 429, body_text = [], json_result = Inl json_error\<rparr>"
      and r_second = "\<lparr>status_code = 200, body_text = [], json_result = Inr (text_reply (JStr ''yo''))\<rparr>"
      and net_c = "replay [] (reply 200 (Inr (text_reply (JStr ''yo''))))"]
  by (simp add: replay_def reply_def posts_session_start sleeps_session_start
      MAX_RETRIES_def RATE_LIMIT_DELAY_def del: attempts_loop.simps)

text \<open>
  Claim C3 as stated fails: after a 429, a 200 whose \<open>response.json()\<close> raises a
  \<open>RequestException\<close> is caught by the handler of line 107 and retried. Here the call
  sleeps twice and returns what the third answer, a 404, gives.
\<close>

theorem retry_429_then_200_counterexample:
  "fst (get_response
          (replay [reply 429 (Inl json_error), reply 200 (Inl json_error)] (reply 404 (Inl json_error)))
          ''hi'' session_start) = Inr ModelNotFound
   \<and> sleeps (snd (get_response
          (replay [reply 429 (Inl json_error), reply 200 (Inl json_error)] (reply 404 (Inl json_error)))
          ''hi'' session_start)) = [RATE_LIMIT_DELAY * 1, RATE_LIMIT_DELAY]"
  by (simp add: get_response_loop caller_view_def try_body_def on_status_200_def
      on_request_exception_def replay_def reply_def json_error_def posts_session_start
      sleeps_session_start MAX_RETRIES_def)

section \<open>Reading the body of a 200\<close>

lemma safety_blocked_True:
  "map_of kvs ''promptFeedback'' = Some (JObj fb) \<Longrightarrow> map_of fb ''blockReason'' = Some v \<Longrightarrow>
   truthy v \<Longrightarrow> safety_blocked (JObj kvs) = Inr True"
  by (simp add: safety_blocked_def)

lemma on_status_200_blocked:
  "json_result r = Inr (JObj kvs) \<Longrightarrow>
   map_of kvs ''promptFeedback'' = Some (JObj fb) \<Longrightarrow> map_of fb ''blockReason'' = Some v \<Longrightarrow>
   truthy v \<Longrightarrow> on_status_200 r prompt st = (Inr (Return SafetyBlocked), st)"
  by (simp add: on_status_200_def safety_blocked_True)

text \<open>
  Claim C5. A 200 whose parsed body is an object with a \<open>promptFeedback\<close> object that has
  a \<open>blockReason\<close> with a true truth value (every non-empty string has one) ends the loop,
  at whatever index it comes, with the safety message; it ends \<open>get_response\<close> so when it
  is the first answer; and the history is as it was before the call.
\<close>

theorem safety_block_leaves_history:
  assumes "net (length (posts st)) = Inr r" and "status_code r = 200"
    and "json_result r = Inr (JObj kvs)"
    and "map_of kvs ''promptFeedback'' = Some (JObj fb)"
    and "map_of fb ''blockReason'' = Some v" and "truthy v"
  shows "attempts_loop net prompt data (attempt # rest) st =
           (Inr (Some SafetyBlocked), st\<lparr>posts := posts st @ [data]\<rparr>)
     \<and> get_response net prompt st =
           (Inr SafetyBlocked, st\<lparr>posts := posts st @ [fst (create_message_content prompt st)]\<rparr>)
     \<and> messages (snd (get_response net prompt st)) = messages st"
proof -
  have tb: "try_body net prompt d a st = (Inr (Return SafetyBlocked), st\<lparr>posts := posts st @ [d]\<rparr>)"
    for d a
    using assms by (simp add: try_body_200 on_status_200_blocked)
  obtain data' where c: "create_message_content prompt st = (data', st)"
    by (simp add: create_message_content_def Let_def)
  show ?thesis
    by (simp add: tb get_response_def c range_MAX_RETRIES messages_frame)
qed

theorem safety_block_leaves_history_witness:
  "truthy (JStr ''SAFETY'')
   \<and> fst (get_response (replay [] (reply 200 (Inr blocked_body))) ''hi'' session_start) = Inr SafetyBlocked
   \<and> messages (snd (get_response (replay [] (reply 200 (Inr blocked_body))) ''hi'' session_start)) = []"
  using safety_block_leaves_history
     [where net = "replay [] (reply 200 (Inr blocked_body))" and st = session_start
      and r = "\<lparr>status_code = 200, body_text = [], json_result = Inr blocked_body\<rparr>"
      and kvs = "[(''promptFeedback'', JObj [(''blockReason'', JStr ''SAFETY'')])]"
      and fb = "[(''blockReason'', JStr ''SAFETY'')]" and v = "JStr ''SAFETY''"
      and prompt = "''hi''" and data = "\<lparr>contents = []\<rparr>" and attempt = 0 and rest = "[]"]
  by (simp add: replay_def reply_def blocked_body_def messages_session_start messages_frame
      del: attempts_loop.simps)

text \<open>
  What does fall through to line 96: a body without \<open>promptFeedback\<close> whose \<open>candidates\<close>
  are missing or an empty list. The call returns \<open>No response generated\<close> and only the
  HTTP call is logged.
\<close>

lemma on_status_200_no_candidates:
  assumes "json_result r = Inr (JObj kvs)" and "map_of kvs ''promptFeedback'' = None"
    and "map_of kvs ''candidates'' = None \<or> map_of kvs ''candidates'' = Some (JArr [])"
  shows "on_status_200 r prompt st = (Inr (Return Empty), st)"
proof -
  have sb: "safety_blocked (JObj kvs) = Inr False"
    using assms(2) by (simp add: safety_blocked_def)
  have rt: "response_text (JObj kvs) = Inr None"
    using assms(3) by (auto simp: response_text_def nonempty_at_def)
  show ?thesis
    using assms(1) by (simp add: on_status_200_def sb rt)
qed

lemma get_response_no_candidates:
  assumes "net (length (posts st)) = Inr r" and "status_code r = 200"
    and "json_result r = Inr (JObj kvs)" and "map_of kvs ''promptFeedback'' = None"
    and "map_of kvs ''candidates'' = None \<or> map_of kvs ''candidates'' = Some (JArr [])"
  shows "get_response net prompt st =
     (Inr Empty, st\<lparr>posts := posts st @ [fst (create_message_content prompt st)]\<rparr>)"
proof -
  obtain data where c: "create_message_content prompt st = (data, st)"
    by (simp add: create_message_content_def Let_def)
  have "try_body net prompt data 0 st = (Inr (Return Empty), st\<lparr>posts := posts st @ [data]\<rparr>)"
    using assms by (simp add: try_body_200 on_status_200_no_candidates)
  then show ?thesis
    by (simp add: get_response_def c range_MAX_RETRIES)
qed

text \<open>
  Claim C6 at a 200 whose first candidate has no \<open>content\<close>, as the API sends it for a
  candidate stopped by its safety filter. Line 90 raises \<open>KeyError('content')\<close>, the outer
  handler turns it into the string \<open>An error occurred: 'content'\<close>, and that is not the
  string \<open>No response generated\<close> of line 96. One HTTP call was made and nothing else
  changed.
\<close>

theorem candidate_without_content_error:
  "get_response (replay [] (reply 200 (Inr no_content_body))) ''hi'' session_start =
     (Inr (ErrorOccurred (quote ''content'')),
      session_start\<lparr>posts := [fst (create_message_content ''hi'' session_start)]\<rparr>)
   \<and> ret_value (ErrorOccurred (quote ''content'')) \<noteq> ret_value Empty"
proof -
  obtain data where c: "create_message_content ''hi'' session_start = (data, session_start)"
    by (simp add: create_message_content_def Let_def)
  have sb: "safety_blocked no_content_body = Inr False"
    by (simp add: safety_blocked_def no_content_body_def)
  have rt: "response_text no_content_body = Inl (Exn KeyError (quote ''content''))"
    by (simp add: response_text_def no_content_body_def nonempty_at_def)
  have "try_body (replay [] (reply 200 (Inr no_content_body))) ''hi'' data 0 session_start =
     (Inl (Exn KeyError (quote ''content'')), session_start\<lparr>posts := [data]\<rparr>)"
    by (simp add: try_body_def replay_def reply_def on_status_200_def sb rt posts_session_start)
  then have "get_response (replay [] (reply 200 (Inr no_content_body))) ''hi'' session_start =
     (Inr (ErrorOccurred (quote ''content'')), session_start\<lparr>posts := [data]\<rparr>)"
    by (simp add: get_response_def c range_MAX_RETRIES quote_def)
  with c show ?thesis by (simp add: quote_def)
qed

section \<open>Exceptions and the caller\<close>

lemma try_body_Inl:
  "try_body net prompt data attempt st = (Inl e, st') \<Longrightarrow>
   raises_only_Exception (net (length (posts st))) \<Longrightarrow> is_Exception e"
  unfolding try_body_def Let_def
  by (auto split: sum.splits if_splits dest!: on_status_200_Inl simp: internal_def)

lemma attempts_loop_Inl:
  "attempts_loop net prompt data idxs st = (Inl e, st') \<Longrightarrow>
   \<forall>k. raises_only_Exception (net k) \<Longrightarrow> is_Exception e"
proof (induction idxs arbitrary: st)
  case Nil
  then show ?case by simp
next
  case (Cons attempt rest)
  obtain b st1 where tb: "try_body net prompt data attempt st = (b, st1)"
    by (cases "try_body net prompt data attempt st")
  show ?case
  proof (cases b)
    case (Inl x)
    have ex: "is_Exception x"
      using try_body_Inl tb Inl Cons.prems(2) by blast
    show ?thesis
    proof (cases "is_RequestException x")
      case True
      obtain s st2 where h: "on_request_exception x attempt st1 = (s, st2)"
        by (cases "on_request_exception x attempt st1")
      show ?thesis
      proof (cases s)
        case (Return r)
        with Cons.prems(1) tb Inl True h show ?thesis by simp
      next
        case Continue
        with Cons.prems(1) tb Inl True h
        have "attempts_loop net prompt data rest st2 = (Inl e, st')" by simp
        from Cons.IH [OF this Cons.prems(2)] show ?thesis .
      qed
    next
      case False
      with Cons.prems(1) tb Inl ex show ?thesis by simp
    qed
  next
    case (Inr s)
    show ?thesis
    proof (cases s)
      case (Return r)
      with Cons.prems(1) tb Inr show ?thesis by simp
    next
      case Continue
      with Cons.prems(1) tb Inr
      have "attempts_loop net prompt data rest st1 = (Inl e, st')" by simp
      from Cons.IH [OF this Cons.prems(2)] show ?thesis .
    qed
  qed
qed

lemma ret_value_is_str: "is_str (ret_value r) \<or> (\<exists>t. r = Success t)"
  by (cases r) simp_all

text \<open>What the success \<open>return\<close> returns: where it comes from in the body of a 200.\<close>

lemma andthen_Inr: "andthen m f = Inr x \<Longrightarrow> \<exists>v. m = Inr v \<and> f v = Inr x"
  by (cases m) simp_all

lemma py_getitem_Inr: "py_getitem v k = Inr x \<Longrightarrow> \<exists>kvs. v = JObj kvs \<and> map_of kvs k = Some x"
  by (cases v) (simp_all split: option.splits)

lemma py_first_getitem:
  "py_first v = Inr x \<Longrightarrow> py_getitem x k = Inr y \<Longrightarrow>
   \<exists>kvs xs. v = JArr (JObj kvs # xs) \<and> map_of kvs k = Some y"
  by (cases v rule: py_first.cases) (auto dest: py_getitem_Inr)

lemma response_text_Some:
  assumes "response_text b = Inr (Some t)"
  shows "\<exists>kvs c cs ct p ps. b = JObj kvs
           \<and> map_of kvs ''candidates'' = Some (JArr (JObj c # cs))
           \<and> map_of c ''content'' = Some (JObj ct)
           \<and> map_of ct ''parts'' = Some (JArr (JObj p # ps))
           \<and> map_of p ''text'' = Some t"
proof -
  from assms obtain ok where ok: "nonempty_at ''candidates'' b = Inr ok"
    and r1: "(if ok then
         andthen (py_getitem b ''candidates'') (\<lambda>cands.
         andthen (py_first cands) (\<lambda>cand.
         andthen (py_getitem cand ''content'') (\<lambda>cont.
         andthen (nonempty_at ''parts'' cont) (\<lambda>ok'.
           if ok' then
             andthen (py_getitem cont ''parts'') (\<lambda>ps.
             andthen (py_first ps) (\<lambda>p.
             andthen (py_getitem p ''text'') (\<lambda>t. Inr (Some t))))
           else Inr None))))
       else Inr None) = Inr (Some t)"
    unfolding response_text_def by (blast dest: andthen_Inr)
  from r1 have "ok" by (auto split: if_splits)
  with r1 obtain cands where g1: "py_getitem b ''candidates'' = Inr cands"
    and r2: "andthen (py_first cands) (\<lambda>cand.
         andthen (py_getitem cand ''content'') (\<lambda>cont.
         andthen (nonempty_at ''parts'' cont) (\<lambda>ok'.
           if ok' then
             andthen (py_getitem cont ''parts'') (\<lambda>ps.
             andthen (py_first ps) (\<lambda>p.
             andthen (py_getitem p ''text'') (\<lambda>t. Inr (Some t))))
           else Inr None))) = Inr (Some t)"
    by (auto dest: andthen_Inr)
  from r2 obtain cand where f1: "py_first cands = Inr cand"
    and r3: "andthen (py_getitem cand ''content'') (\<lambda>cont.
         andthen (nonempty_at ''parts'' cont) (\<lambda>ok'.
           if ok' then
             andthen (py_getitem cont ''parts'') (\<lambda>ps.
             andthen (py_first ps) (\<lambda>p.
             andthen (py_getitem p ''text'') (\<lambda>t. Inr (Some t))))
           else Inr None)) = Inr (Some t)"
    by (blast dest: andthen_Inr)
  from r3 obtain cont where g2: "py_getitem cand ''content'' = Inr cont"
    and r4: "andthen (nonempty_at ''parts'' cont) (\<lambda>ok'.
           if ok' then
             andthen (py_getitem cont ''parts'') (\<lambda>ps.
             andthen (py_first ps) (\<lambda>p.
             andthen (py_getitem p ''text'') (\<lambda>t. Inr (Some t))))
           else Inr None) = Inr (Some t)"
    by (blast dest: andthen_Inr)
  from r4 obtain ok' where
    r5: "(if ok' then
             andthen (py_getitem cont ''parts'') (\<lambda>ps.
             andthen (py_first ps) (\<lambda>p.
             andthen (py_getitem p ''text'') (\<lambda>t. Inr (Some t))))
           else Inr None) = Inr (Some t)"
    by (blast dest: andthen_Inr)
  from r5 have "ok'" by (auto split: if_splits)
  with r5 obtain ps where g3: "py_getitem cont ''parts'' = Inr ps"
    and r6: "andthen (py_first ps) (\<lambda>p.
             andthen (py_getitem p ''text'') (\<lambda>t. Inr (Some t))) = Inr (Some t)"
    by (auto dest: andthen_Inr)
  from r6 obtain p where f2: "py_first ps = Inr p"
    and r7: "andthen (py_getitem p ''text'') (\<lambda>t. Inr (Some t)) = Inr (Some t)"
    by (blast dest: andthen_Inr)
  from r7 have g4: "py_getitem p ''text'' = Inr t"
    by (auto dest: andthen_Inr)
  from py_getitem_Inr [OF g1] obtain kvs where b: "b = JObj kvs"
    and m1: "map_of kvs ''candidates'' = Some cands" by blast
  from py_first_getitem [OF f1 g2] obtain c cs where c: "cands = JArr (JObj c # cs)"
    and m2: "map_of c ''content'' = Some cont" by blast
  from py_getitem_Inr [OF g3] obtain ct where ct: "cont = JObj ct"
    and m3: "map_of ct ''parts'' = Some ps" by blast
  from py_first_getitem [OF f2 g4] obtain pp pps where p: "ps = JArr (JObj pp # pps)"
    and m4: "map_of pp ''text'' = Some t" by blast
  from b m1 c m2 ct m3 p m4 show ?thesis by blast
qed

lemma on_status_200_Success:
  "on_status_200 r prompt st = (Inr (Return (Success t)), st') \<Longrightarrow>
   \<exists>b. json_result r = Inr b \<and> response_text b = Inr (Some t)"
  unfolding on_status_200_def
  by (auto split: sum.splits bool.splits option.splits)

lemma try_body_Success:
  "try_body net prompt data attempt st = (Inr (Return (Success t)), st') \<Longrightarrow>
   \<exists>r b. net (length (posts st)) = Inr r \<and> status_code r = 200 \<and> json_result r = Inr b
      \<and> response_text b = Inr (Some t)"
  unfolding try_body_def Let_def
  by (auto split: sum.splits if_splits dest: on_status_200_Success)

lemma try_body_posts:
  assumes "try_body net prompt data attempt st = (b, st')"
  shows "length (posts st') = Suc (length (posts st))"
proof -
  have "posts (snd (try_body net prompt data attempt st)) = posts st @ [data]"
    unfolding try_body_def Let_def
    by (simp add: on_status_200_logs split: sum.splits)
  with assms show ?thesis by simp
qed

lemma on_request_exception_posts:
  "on_request_exception e attempt st = (s, st') \<Longrightarrow> posts st' = posts st"
  by (auto simp: on_request_exception_def split: if_splits)

lemma attempts_loop_Success:
  "attempts_loop net prompt data idxs st = (Inr (Some (Success t)), st') \<Longrightarrow>
   \<exists>k r b. length (posts st) \<le> k \<and> k < length (posts st) + length idxs
      \<and> net k = Inr r \<and> status_code r = 200 \<and> json_result r = Inr b
      \<and> response_text b = Inr (Some t)"
proof (induction idxs arbitrary: st)
  case Nil
  then show ?case by simp
next
  case (Cons attempt rest)
  obtain b st1 where tb: "try_body net prompt data attempt st = (b, st1)"
    by (cases "try_body net prompt data attempt st")
  note p1 = try_body_posts [OF tb]
  have later: "\<exists>k r b. length (posts st) \<le> k \<and> k < length (posts st) + length (attempt # rest)
      \<and> net k = Inr r \<and> status_code r = 200 \<and> json_result r = Inr b
      \<and> response_text b = Inr (Some t)"
    if "attempts_loop net prompt data rest s = (Inr (Some (Success t)), st')"
      and "posts s = posts st1" for s
  proof -
    from Cons.IH [OF that(1)] obtain k r b where
      "length (posts s) \<le> k" "k < length (posts s) + length rest"
      "net k = Inr r" "status_code r = 200" "json_result r = Inr b"
      "response_text b = Inr (Some t)"
      by blast
    with that(2) p1 show ?thesis
      by (intro exI [of _ k] exI [of _ r] exI [of _ b]) simp
  qed
  show ?case
  proof (cases b)
    case (Inl e)
    show ?thesis
    proof (cases "is_RequestException e")
      case True
      obtain s st2 where h: "on_request_exception e attempt st1 = (s, st2)"
        by (cases "on_request_exception e attempt st1")
      note p2 = on_request_exception_posts [OF h]
      show ?thesis
      proof (cases s)
        case (Return x)
        with Cons.prems tb Inl True h on_request_exception_messages [OF h]
        show ?thesis by simp
      next
        case Continue
        with Cons.prems tb Inl True h
        have "attempts_loop net prompt data rest st2 = (Inr (Some (Success t)), st')"
          by simp
        from later [OF this p2] show ?thesis .
      qed
    next
      case False
      with Cons.prems tb Inl show ?thesis by simp
    qed
  next
    case (Inr s)
    show ?thesis
    proof (cases s)
      case (Return x)
      with Cons.prems tb Inr have "try_body net prompt data attempt st = (Inr (Return (Success t)), st')"
        by simp
      from try_body_Success [OF this] show ?thesis by auto
    next
      case Continue
      with Cons.prems tb Inr
      have "attempts_loop net prompt data rest st1 = (Inr (Some (Success t)), st')"
        by simp
      from later [OF this refl] show ?thesis .
    qed
  qed
qed

lemma caller_view_Success: "caller_view b = Inr (Success t) \<Longrightarrow> b = Inr (Some (Success t))"
  by (auto simp: caller_view_def split: sum.splits option.splits if_splits)

lemma get_response_Success:
  assumes "fst (get_response net prompt st) = Inr (Success t)"
  shows "\<exists>k r kvs c cs ct p ps.
           length (posts st) \<le> k \<and> k < length (posts st) + MAX_RETRIES
           \<and> net k = Inr r \<and> status_code r = 200 \<and> json_result r = Inr (JObj kvs)
           \<and> map_of kvs ''candidates'' = Some (JArr (JObj c # cs))
           \<and> map_of c ''content'' = Some (JObj ct)
           \<and> map_of ct ''parts'' = Some (JArr (JObj p # ps))
           \<and> map_of p ''text'' = Some t"
proof -
  let ?d = "fst (create_message_content prompt st)"
  obtain b st' where a: "attempts_loop net prompt ?d [0..<MAX_RETRIES] st = (b, st')"
    by (cases "attempts_loop net prompt ?d [0..<MAX_RETRIES] st")
  from assms have "caller_view b = Inr (Success t)"
    by (simp add: get_response_range a)
  then have "b = Inr (Some (Success t))" by (rule caller_view_Success)
  with a have "attempts_loop net prompt ?d [0..<MAX_RETRIES] st = (Inr (Some (Success t)), st')"
    by simp
  from attempts_loop_Success [OF this] obtain k r b' where
    k: "length (posts st) \<le> k" "k < length (posts st) + MAX_RETRIES"
    and r: "net k = Inr r" "status_code r = 200" "json_result r = Inr b'"
    and t: "response_text b' = Inr (Some t)"
    by auto
  from response_text_Some [OF t] obtain kvs c cs ct p ps where
    "b' = JObj kvs" "map_of kvs ''candidates'' = Some (JArr (JObj c # cs))"
    "map_of c ''content'' = Some (JObj ct)" "map_of ct ''parts'' = Some (JArr (JObj p # ps))"
    "map_of p ''text'' = Some t"
    by blast
  with k r show ?thesis by blast
qed

text \<open>
  Claim C10, as the code has it. Whatever the prompt, the state and the network, as long
  as neither \<open>requests.post\<close> nor \<open>response.json()\<close> raises something that is no
  \<open>Exception\<close> (an interrupt), \<open>get_response\<close> returns: no exception reaches its caller.
  At every \<open>return\<close> but the success one the value is a string. At the success one it is
  the value \<open>t\<close> that one of the at most \<open>MAX_RETRIES\<close> answers to this call, a 200 whose
  body parsed to an object, holds at \<open>candidates[0].content.parts[0].text\<close>: a string
  exactly when that value is one.
\<close>

theorem get_response_returns:
  assumes "\<forall>k. raises_only_Exception (net k)"
  shows "\<exists>r. fst (get_response net prompt st) = Inr r
     \<and> ((\<forall>t. r \<noteq> Success t) \<longrightarrow> is_str (ret_value r))
     \<and> (\<forall>t. r = Success t \<longrightarrow>
          ret_value r = t
          \<and> (\<exists>k resp kvs c cs ct p ps.
                length (posts st) \<le> k \<and> k < length (posts st) + MAX_RETRIES
                \<and> net k = Inr resp \<and> status_code resp = 200
                \<and> json_result resp = Inr (JObj kvs)
                \<and> map_of kvs ''candidates'' = Some (JArr (JObj c # cs))
                \<and> map_of c ''content'' = Some (JObj ct)
                \<and> map_of ct ''parts'' = Some (JArr (JObj p # ps))
                \<and> map_of p ''text'' = Some t))"
proof -
  obtain data where c: "create_message_content prompt st = (data, st)"
    by (simp add: create_message_content_def Let_def)
  obtain b st1 where a: "attempts_loop net prompt data [0..<MAX_RETRIES] st = (b, st1)"
    by (cases "attempts_loop net prompt data [0..<MAX_RETRIES] st")
  have ex: "\<exists>r. fst (get_response net prompt st) = Inr r"
  proof (cases b)
    case (Inl e)
    with attempts_loop_Inl a assms have "is_Exception e" by blast
    with c a Inl show ?thesis by (simp add: get_response_def)
  next
    case (Inr x)
    with c a show ?thesis by (cases x) (simp_all add: get_response_def)
  qed
  then obtain r where r: "fst (get_response net prompt st) = Inr r" ..
  have s: "(\<forall>t. r \<noteq> Success t) \<longrightarrow> is_str (ret_value r)"
    using ret_value_is_str [of r] by blast
  have l: "\<forall>t. r = Success t \<longrightarrow>
          ret_value r = t
          \<and> (\<exists>k resp kvs c cs ct p ps.
                length (posts st) \<le> k \<and> k < length (posts st) + MAX_RETRIES
                \<and> net k = Inr resp \<and> status_code resp = 200
                \<and> json_result resp = Inr (JObj kvs)
                \<and> map_of kvs ''candidates'' = Some (JArr (JObj c # cs))
                \<and> map_of c ''content'' = Some (JObj ct)
                \<and> map_of ct ''parts'' = Some (JArr (JObj p # ps))
                \<and> map_of p ''text'' = Some t)"
  proof (intro allI impI conjI)
    fix t assume "r = Success t"
    then show "ret_value r = t" by simp
    from \<open>r = Success t\<close> r have "fst (get_response net prompt st) = Inr (Success t)" by simp
    then show "\<exists>k resp kvs c cs ct p ps.
                length (posts st) \<le> k \<and> k < length (posts st) + MAX_RETRIES
                \<and> net k = Inr resp \<and> status_code resp = 200
                \<and> json_result resp = Inr (JObj kvs)
                \<and> map_of kvs ''candidates'' = Some (JArr (JObj c # cs))
                \<and> map_of c ''content'' = Some (JObj ct)
                \<and> map_of ct ''parts'' = Some (JArr (JObj p # ps))
                \<and> map_of p ''text'' = Some t"
      by (rule get_response_Success)
  qed
  from r s l show ?thesis by blast
qed

theorem get_response_returns_witness:
  "(\<forall>k. raises_only_Exception (replay [reply 429 (Inl json_error)] (reply 200 (Inr (text_reply (JStr ''yo'')))) k))
   \<and> fst (get_response (replay [reply 429 (Inl json_error)] (reply 200 (Inr (text_reply (JStr ''yo'')))))
            ''hi'' session_start) = Inr (Success (JStr ''yo''))
   \<and> is_str (ret_value (Success (JStr ''yo'')))
   \<and> (\<exists>r. fst (get_response (replay [reply 429 (Inl json_error)] (reply 200 (Inr (text_reply (JStr ''yo'')))))
                  ''hi'' session_start) = Inr r
         \<and> (\<exists>k resp kvs c cs ct p ps.
                k < MAX_RETRIES
                \<and> replay [reply 429 (Inl json_error)] (reply 200 (Inr (text_reply (JStr ''yo'')))) k = Inr resp
                \<and> status_code resp = 200
                \<and> json_result resp = Inr (JObj kvs)
                \<and> map_of kvs ''candidates'' = Some (JArr (JObj c # cs))
                \<and> map_of c ''content'' = Some (JObj ct)
                \<and> map_of ct ''parts'' = Some (JArr (JObj p # ps))
                \<and> map_of p ''text'' = Some (ret_value r)))"
proof -
  let ?N = "replay [reply 429 (Inl json_error)] (reply 200 (Inr (text_reply (JStr ''yo''))))"
  have h: "\<forall>k. raises_only_Exception (?N k)"
    by (simp add: replay_def reply_def json_error_def)
  have g: "fst (get_response ?N ''hi'' session_start) = Inr (Success (JStr ''yo''))"
    by (simp add: get_response_loop caller_view_def try_body_def on_status_200_def
        replay_def reply_def posts_session_start MAX_RETRIES_def
        safety_blocked_text_reply response_text_text_reply)
  from get_response_returns [OF h, of "''hi''" session_start] g
  show ?thesis
    using h by (auto simp: posts_session_start)
qed

text \<open>
  Claim C10 as stated fails: for the body
  \<open>{"candidates": [{"content": {"parts": [{"text": 5}]}}]}\<close> the call returns the
  integer 5, which is no string.
\<close>

theorem get_response_non_string_counterexample:
  "fst (get_response (replay [] (reply 200 (Inr (text_reply (JInt 5))))) ''hi'' session_start)
     = Inr (Success (JInt 5))
   \<and> ret_value (Success (JInt 5)) = JInt 5 \<and> \<not> is_str (JInt 5)"
  by (simp add: get_response_text_reply replay_def)

section \<open>The length check of \<open>main\<close>\<close>

lemma length_lower: "length (lower s) = length s"
  by (simp add: lower_def)

lemma posts_console_print: "posts (console_print c st) = posts st"
  by (simp add: console_print_def)

lemma posts_show_response: "posts (show_response v st) = posts st"
  by (simp add: show_response_def posts_console_print split: json.splits)

lemma main_iteration_too_long:
  assumes "MAX_TOKENS < length (strip line)"
  shows "main_iteration net line st =
     (True,
      console_print (Print ''[red]Input too long. Please reduce the length of your message.[/red]'')
        (console_print (Print (CHR 0x0A # ''[bold green]You:[/bold green] '')) st))"
proof -
  from assms have len: "30720 < length (lower (strip line))"
    by (simp add: length_lower MAX_TOKENS_def)
  from assms have ne: "strip line \<noteq> []" by auto
  from len have q: "lower (strip line) \<noteq> ''quit''" and e: "lower (strip line) \<noteq> ''exit''"
    and c: "lower (strip line) \<noteq> ''clear''"
    by auto
  show ?thesis
    using assms ne q e c by (simp add: main_iteration_def Let_def)
qed

lemma isspace_a: "\<not> isspace CHR ''a''"
  by (simp add: isspace_def)

lemma isspace_blank: "isspace CHR '' ''"
  by (simp add: isspace_def)

lemma strip_replicate_a: "strip (replicate n CHR ''a'') = replicate n CHR ''a''"
  by (simp add: strip_def isspace_a)

lemma strip_padded_line: "strip padded_line = replicate MAX_TOKENS CHR ''a''"
  by (simp add: strip_def padded_line_def isspace_blank isspace_a)

text \<open>
  Claim C8, as the code has it. \<open>main\<close> strips the line before it measures it. For every
  line whose length after \<open>strip()\<close> exceeds \<open>MAX_TOKENS\<close>, the pass through the loop
  prints the prompt and the rejection message and goes on with the next line:
  \<open>get_response\<close> is not called, no HTTP call is made, no sleep, and the history is as it
  was.
\<close>

theorem long_input_rejected:
  "MAX_TOKENS < length (strip line) \<Longrightarrow>
   fst (main_iteration net line st) = True
   \<and> printed (snd (main_iteration net line st)) =
       printed st @ [Print (CHR 0x0A # ''[bold green]You:[/bold green] ''),
                     Print ''[red]Input too long. Please reduce the length of your message.[/red]'']
   \<and> posts (snd (main_iteration net line st)) = posts st
   \<and> sleeps (snd (main_iteration net line st)) = sleeps st
   \<and> messages (snd (main_iteration net line st)) = messages st"
  by (simp add: main_iteration_too_long console_print_def messages_def)

theorem long_input_rejected_witness:
  "MAX_TOKENS < length (strip (replicate (Suc MAX_TOKENS) CHR ''a''))
   \<and> fst (main_iteration (\<lambda>k. reply 404 (Inl json_error))
            (replicate (Suc MAX_TOKENS) CHR ''a'') session_start) = True
   \<and> posts (snd (main_iteration (\<lambda>k. reply 404 (Inl json_error))
            (replicate (Suc MAX_TOKENS) CHR ''a'') session_start)) = []"
  using long_input_rejected
    [of "replicate (Suc MAX_TOKENS) CHR ''a''" "\<lambda>k. reply 404 (Inl json_error)" session_start]
  by (simp add: strip_replicate_a posts_session_start del: replicate.simps)

text \<open>
  Claim C8 as stated fails: \<open>padded_line\<close> has \<open>MAX_TOKENS + 1\<close> characters, one blank and
  \<open>MAX_TOKENS\<close> letters. Stripped it has \<open>MAX_TOKENS\<close>, the check of line 169 lets it
  pass, and \<open>get_response\<close> makes an HTTP call.
\<close>

theorem padded_long_line_counterexample:
  "MAX_TOKENS < length padded_line
   \<and> length (posts (snd (main_iteration (\<lambda>k. reply 404 (Inl json_error)) padded_line session_start))) = 1"
proof -
  let ?u = "replicate MAX_TOKENS CHR ''a''"
  let ?st = "console_print (Print (CHR 0x0A # ''[bold blue]Chatbot:[/bold blue]''))
               (console_print (Print (CHR 0x0A # ''[bold green]You:[/bold green] '')) session_start)"
  have len: "length (lower ?u) = 30720"
    by (simp add: length_lower MAX_TOKENS_def)
  then have q: "lower ?u \<noteq> ''quit''" and e: "lower ?u \<noteq> ''exit''" and c: "lower ?u \<noteq> ''clear''"
    by auto
  have ne: "?u \<noteq> []" by (simp add: MAX_TOKENS_def)
  have g: "get_response (\<lambda>k. reply 404 (Inl json_error)) ?u ?st =
      (Inr ModelNotFound, ?st\<lparr>posts := posts ?st @ [fst (create_message_content ?u ?st)]\<rparr>)"
    by (rule get_response_404
          [where r = "\<lparr>status_code = 404, body_text = [], json_result = Inl json_error\<rparr>"])
       (simp_all add: reply_def)
  have "main_iteration (\<lambda>k. reply 404 (Inl json_error)) padded_line session_start =
      (True, show_response (ret_value ModelNotFound)
               (?st\<lparr>posts := posts ?st @ [fst (create_message_content ?u ?st)]\<rparr>))"
    unfolding main_iteration_def Let_def strip_padded_line
    using ne q e c by (simp add: g del: replicate.simps)
  then show ?thesis
    by (simp add: posts_show_response posts_console_print posts_session_start padded_line_def
        del: replicate.simps ret_value.simps)
qed

end
